theory Spec2Isabelle
  imports Complex_Main
begin

section \<open>Scalars, points and library types\<close>

text \<open>
  The C++ \<open>double\<close> and \<open>float\<close> values are modelled as \<open>real\<close>. The cast of a
  \<open>double\<close> to \<open>float\<close> rounds (\<open>to_float\<close>), and so does the one subtraction of
  two \<open>double\<close> values whose result the source tests (\<open>to_double\<close>); the halving and
  the negation of the marker length are exact in \<open>double\<close>. The C++ \<open>int\<close> (marker ids,
  update counts) is modelled as \<open>int\<close>; nothing below depends on integer overflow.

  Types of OpenCV, tf2 and GTSAM are kept as data where the source constructs or reads
  them; \<open>tf2::Transform\<close> is a type parameter \<open>'tf\<close>, and every library routine the
  source calls is a field of the record \<open>Lib\<close>, passed to each function that uses it.
  The library routines are total functions: of the exceptions a library can raise, the
  model keeps those of \<open>gtsam::Values\<close> (a key inserted twice, a key that is absent)
  and that of a YAML scalar that does not convert.

  A member whose name ends in an underscore in the source carries the prefix of its class
  instead (\<open>cv_\<close> of \<open>SamFiducialMath\<close> is \<open>sam_cv\<close>, \<open>map_\<close> of \<open>VmapNode\<close> is
  \<open>node_map\<close>), and a method that several classes define carries the name of its class
  (\<open>CvFiducialMath_update_map\<close>, \<open>SamFiducialMath_update_map\<close>).
\<close>

type_synonym Vec3d = "real \<times> real \<times> real"
type_synonym Point3d = "real \<times> real \<times> real"
type_synonym Point2f = "real \<times> real"

text \<open>\<open>cv::Mat\<close> and \<open>tf2::Matrix3x3\<close>: the entries in row-major order.\<close>
type_synonym Mat = "real list"

text \<open>\<open>TransformWithCovariance::cov_type\<close> is \<open>std::array<double, 36>\<close>, row-major 6x6.\<close>
type_synonym cov_type = "real list"

text \<open>\<open>gtsam::Matrix6\<close>: entry \<open>(r, c)\<close> is kept at index \<open>r * 6 + c\<close>.\<close>
type_synonym Matrix6 = "real list"

definition mat_get :: "Matrix6 \<Rightarrow> nat \<Rightarrow> nat \<Rightarrow> real" where
  "mat_get m r c = m ! (r * 6 + c)"

definition mat_set :: "Matrix6 \<Rightarrow> nat \<Rightarrow> nat \<Rightarrow> real \<Rightarrow> Matrix6" where
  "mat_set m r c v = m[r * 6 + c := v]"

subsection \<open>Rounding to a binary floating-point format\<close>

text \<open>
  Where the source computes in \<open>double\<close> and tests the result, or casts to \<open>float\<close>,
  the model rounds: IEEE 754 round to nearest, ties to even, to a significand of \<open>p\<close>
  bits with least exponent \<open>emin\<close> (below it the spacing stays that of \<open>emin\<close>, as for
  subnormal numbers). Overflow, infinities and NaN are not modelled.
\<close>
definition round_half_even :: "real \<Rightarrow> int" where
  "round_half_even y =
     (let f = \<lfloor>y\<rfloor>
      in if y - of_int f < 1 / 2 then f
         else if y - of_int f > 1 / 2 then f + 1
         else if even f then f else f + 1)"

definition round_binary :: "nat \<Rightarrow> int \<Rightarrow> real \<Rightarrow> real" where
  "round_binary p emin x =
     (if x = 0 then 0
      else
        let e = max \<lfloor>log 2 \<bar>x\<bar>\<rfloor> emin;
            ulp = 2 powi (e - (int p - 1))
        in ulp * of_int (round_half_even (x / ulp)))"

text \<open>\<open>double\<close> is binary64 and \<open>float\<close> is binary32.\<close>
definition to_double :: "real \<Rightarrow> real" where
  "to_double x = round_binary 53 (- 1022) x"

definition to_float :: "real \<Rightarrow> real" where
  "to_float x = round_binary 24 (- 126) x"

text \<open>\<open>tf2::Quaternion\<close>, constructed as \<open>(x, y, z, w)\<close>.\<close>
datatype Quaternion = Quaternion (qx: real) (qy: real) (qz: real) (qw: real)

text \<open>\<open>gtsam::Rot3\<close>, constructed from a quaternion as \<open>(w, x, y, z)\<close>.\<close>
datatype Rot3 = Rot3 (rw: real) (rx: real) (ry: real) (rz: real)

datatype Pose3 = Pose3 (rotation: Rot3) (translation: Vec3d)

text \<open>\<open>gtsam::Symbol(c, j)\<close>.\<close>
datatype Key = Symbol char nat

text \<open>\<open>static_cast<std::uint64_t>\<close> of an \<open>int\<close>.\<close>
definition uint64_of_int :: "int \<Rightarrow> nat" where
  "uint64_of_int i = nat (i mod 2 ^ 64)"

datatype Cal3DS2 = Cal3DS2 real real real real real real real real real

datatype SharedNoiseModel =
    Diagonal_Sigmas "real list"
  | Gaussian_Covariance Matrix6
  | Constrained_MixedSigmas "real list"

definition Z_6x1 :: "real list" where
  "Z_6x1 = replicate 6 0"

datatype factor =
    ResectioningFactor SharedNoiseModel Key Cal3DS2 Point2f Point3d
  | BetweenFactor Key Key Pose3 SharedNoiseModel
  | PriorFactor Key Pose3 SharedNoiseModel

type_synonym NonlinearFactorGraph = "factor list"

text \<open>\<open>gtsam::Values\<close>: the keys with their poses, in insertion order.\<close>
type_synonym Values = "(Key \<times> Pose3) list"

text \<open>
  What the C++ can raise or run into: the two exceptions of \<open>gtsam::Values\<close>, the
  dereference of an empty \<open>std::unique_ptr\<close>, the read of a pointer never assigned, and
  the exception of \<open>YAML::Node::as\<close> on a scalar that does not convert.
\<close>
datatype exn =
    ValuesKeyAlreadyExists Key
  | ValuesKeyDoesNotExist Key
  | NullPointerDereference
  | UninitializedPointer
  | BadConversion

definition Values_insert :: "Key \<Rightarrow> Pose3 \<Rightarrow> Values \<Rightarrow> exn + Values" where
  "Values_insert k p vs =
     (if k \<in> fst ` set vs then Inl (ValuesKeyAlreadyExists k) else Inr (vs @ [(k, p)]))"

definition Values_at :: "Values \<Rightarrow> Key \<Rightarrow> exn + Pose3" where
  "Values_at vs k =
     (case map_of vs k of None \<Rightarrow> Inl (ValuesKeyDoesNotExist k) | Some p \<Rightarrow> Inr p)"

section \<open>Data model\<close>

text \<open>
  Modelled from the spec: \<open>TransformWithCovariance\<close> (transform_with_covariance.hpp is
  not among the sources). A rigid transform, a 36-entry covariance and a validity flag.
\<close>
record 'tf TransformWithCovariance =
  is_valid :: bool
  transform :: 'tf
  cov :: cov_type

record Observation =
  observation_id :: int
  x0 :: real
  y0 :: real
  x1 :: real
  y1 :: real
  x2 :: real
  y2 :: real
  x3 :: real
  y3 :: real

type_synonym Observations = "Observation list"

text \<open>
  Modelled from the spec: \<open>Marker\<close> (map.hpp is not among the sources), with the
  fields \<open>id, t_map_marker, update_count, is_fixed\<close>.
\<close>
record 'tf Marker =
  marker_id :: int
  t_map_marker :: "'tf TransformWithCovariance"
  update_count :: int
  is_fixed :: bool

datatype MapStyles = pose | covariance | corners

text \<open>
  Modelled from the spec: \<open>Map\<close> (map.hpp is not among the sources), a mapping from
  marker id to marker (a \<open>std::map\<close>, read as \<open>marker_pair.second\<close> by the source)
  with the two globals \<open>map_style\<close> and \<open>marker_length\<close>.
\<close>
record 'tf Map_t =
  map_style :: MapStyles
  marker_length :: real
  markers :: "int \<rightharpoonup> 'tf Marker"

record CameraInfo =
  camera_matrix :: Mat
  dist_coeffs :: Mat

text \<open>
  The library routines the source calls. \<open>update_simple_average\<close> is the method of
  \<open>TransformWithCovariance\<close> of that name, whose body is not among the sources.
\<close>
record 'tf Lib =
  solvePnP :: "Point3d list \<Rightarrow> Point2f list \<Rightarrow> Mat \<Rightarrow> Mat \<Rightarrow> Vec3d \<times> Vec3d"
  solvePnPRansac :: "Point3d list \<Rightarrow> Point2f list \<Rightarrow> Mat \<Rightarrow> Mat \<Rightarrow> Vec3d \<times> Vec3d"
  Rodrigues :: "Vec3d \<Rightarrow> Mat"
  Transform_identity :: "'tf"
  Transform_of_basis :: "Mat \<Rightarrow> Vec3d \<Rightarrow> 'tf"
  Transform_of_quaternion :: "Quaternion \<Rightarrow> Vec3d \<Rightarrow> 'tf"
  Transform_mul :: "'tf \<Rightarrow> 'tf \<Rightarrow> 'tf"
  Transform_inverse :: "'tf \<Rightarrow> 'tf"
  Transform_apply :: "'tf \<Rightarrow> Vec3d \<Rightarrow> Vec3d"
  getRotation :: "'tf \<Rightarrow> Quaternion"
  getOrigin :: "'tf \<Rightarrow> Vec3d"
  update_simple_average ::
    "'tf TransformWithCovariance \<Rightarrow> 'tf TransformWithCovariance \<Rightarrow> int
       \<Rightarrow> 'tf TransformWithCovariance"
  LevenbergMarquardtOptimizer_optimize :: "NonlinearFactorGraph \<Rightarrow> Values \<Rightarrow> Values"
  marginalCovariance :: "NonlinearFactorGraph \<Rightarrow> Values \<Rightarrow> Key \<Rightarrow> Matrix6"

subsection \<open>Constructors and the map store\<close>

text \<open>
  Modelled from the spec: the default \<open>TransformWithCovariance{}\<close> is the identity
  with the validity flag off ("distinguishes no solution from identity").
\<close>
definition TransformWithCovariance_invalid :: "'tf Lib \<Rightarrow> 'tf TransformWithCovariance" where
  "TransformWithCovariance_invalid lib =
     \<lparr>is_valid = False, transform = Transform_identity lib, cov = replicate 36 0\<rparr>"

text \<open>
  Modelled from the spec: \<open>TransformWithCovariance(transform)\<close> is valid and has the
  zero covariance.
\<close>
definition TransformWithCovariance_of :: "'tf \<Rightarrow> 'tf TransformWithCovariance" where
  "TransformWithCovariance_of t = \<lparr>is_valid = True, transform = t, cov = replicate 36 0\<rparr>"

text \<open>Modelled from the spec: \<open>TransformWithCovariance(transform, cov)\<close>.\<close>
definition TransformWithCovariance_cov :: "'tf \<Rightarrow> cov_type \<Rightarrow> 'tf TransformWithCovariance" where
  "TransformWithCovariance_cov t c = \<lparr>is_valid = True, transform = t, cov = c\<rparr>"

text \<open>
  Modelled from the spec: \<open>Marker(id, t_map_marker)\<close> starts with \<open>update_count = 1\<close>
  and is not fixed (a marker inserted by a map update "is present, not fixed,
  update_count = 1"); the source fixes a marker with a separate \<open>set_is_fixed(true)\<close>.
\<close>
definition Marker_new :: "int \<Rightarrow> 'tf TransformWithCovariance \<Rightarrow> 'tf Marker" where
  "Marker_new i t = \<lparr>marker_id = i, t_map_marker = t, update_count = 1, is_fixed = False\<rparr>"

text \<open>Modelled from the spec: \<open>Map(map_style, marker_length)\<close>, with no marker.\<close>
definition Map_new :: "MapStyles \<Rightarrow> real \<Rightarrow> 'tf Map_t" where
  "Map_new s l = \<lparr>map_style = s, marker_length = l, markers = Map.empty\<rparr>"

text \<open>Modelled from the spec: \<open>find(id)\<close>, the marker of that id or nothing.\<close>
definition find_marker :: "'tf Map_t \<Rightarrow> int \<Rightarrow> 'tf Marker option" where
  "find_marker m i = markers m i"

text \<open>
  Modelled from the spec: \<open>insert(marker)\<close> rejects a duplicate id; the map then stays
  as it is.
\<close>
definition add_marker :: "'tf Marker \<Rightarrow> 'tf Map_t \<Rightarrow> 'tf Map_t" where
  "add_marker mk m =
     (if marker_id mk \<in> dom (markers m) then m
      else m\<lparr>markers := (markers m)(marker_id mk \<mapsto> mk)\<rparr>)"

text \<open>
  Modelled from the spec: \<open>find_t_map_markers(observations)\<close>: for each observation, in
  order, the map pose of its marker if known, else an invalid transform.
\<close>
definition find_t_map_markers ::
  "'tf Lib \<Rightarrow> 'tf Map_t \<Rightarrow> Observations \<Rightarrow> 'tf TransformWithCovariance list" where
  "find_t_map_markers lib m observations =
     map (\<lambda>observation.
            case find_marker m (observation_id observation) of
              None \<Rightarrow> TransformWithCovariance_invalid lib
            | Some mk \<Rightarrow> t_map_marker mk)
         observations"

section \<open>CvFiducialMath: the geometric solver\<close>

definition append_corners_f_marker :: "real \<Rightarrow> Point3d list \<Rightarrow> Point3d list" where
  "append_corners_f_marker marker_length' corners_f_marker =
     corners_f_marker @
       [(- marker_length' / 2, marker_length' / 2, 0),
        (marker_length' / 2, marker_length' / 2, 0),
        (marker_length' / 2, - marker_length' / 2, 0),
        (- marker_length' / 2, - marker_length' / 2, 0)]"

definition append_corners_f_image :: "Observation \<Rightarrow> Point2f list \<Rightarrow> Point2f list" where
  "append_corners_f_image observation corners_f_image =
     corners_f_image @
       [(to_float (x0 observation), to_float (y0 observation)),
        (to_float (x1 observation), to_float (y1 observation)),
        (to_float (x2 observation), to_float (y2 observation)),
        (to_float (x3 observation), to_float (y3 observation))]"

definition append_corners_f_map ::
  "'tf Lib \<Rightarrow> 'tf TransformWithCovariance \<Rightarrow> real \<Rightarrow> Point3d list \<Rightarrow> Point3d list" where
  "append_corners_f_map lib t_map_marker' marker_length' corners_f_map =
     (let corner0_f_marker = (- marker_length' / 2, marker_length' / 2, 0);
          corner1_f_marker = (marker_length' / 2, marker_length' / 2, 0);
          corner2_f_marker = (marker_length' / 2, - marker_length' / 2, 0);
          corner3_f_marker = (- marker_length' / 2, - marker_length' / 2, 0);
          t_map_marker_tf = transform t_map_marker'
      in corners_f_map @
           [Transform_apply lib t_map_marker_tf corner0_f_marker,
            Transform_apply lib t_map_marker_tf corner1_f_marker,
            Transform_apply lib t_map_marker_tf corner2_f_marker,
            Transform_apply lib t_map_marker_tf corner3_f_marker])"

definition to_tf2_transform :: "'tf Lib \<Rightarrow> Vec3d \<Rightarrow> Vec3d \<Rightarrow> 'tf" where
  "to_tf2_transform lib rvec tvec = Transform_of_basis lib (Rodrigues lib rvec) tvec"

definition CvFiducialMath_solve_t_camera_marker ::
  "'tf Lib \<Rightarrow> CameraInfo \<Rightarrow> Observation \<Rightarrow> real \<Rightarrow> 'tf TransformWithCovariance" where
  "CvFiducialMath_solve_t_camera_marker lib ci observation marker_length' =
     (let corners_f_marker = append_corners_f_marker marker_length' [];
          corners_f_image = append_corners_f_image observation [];
          (rvec, tvec) = solvePnP lib corners_f_marker corners_f_image
                           (camera_matrix ci) (dist_coeffs ci)
      in TransformWithCovariance_of (to_tf2_transform lib rvec tvec))"

text \<open>
  The loop of \<open>solve_t_map_camera\<close> over the observations and their map poses, which
  collects the corners of the known markers.
\<close>
fun collect_corners ::
  "'tf Lib \<Rightarrow> real \<Rightarrow> (Observation \<times> 'tf TransformWithCovariance) list
     \<Rightarrow> Point3d list \<times> Point2f list \<Rightarrow> Point3d list \<times> Point2f list" where
  "collect_corners lib l [] acc = acc"
| "collect_corners lib l ((observation, t_map_marker') # rest) (all_corners_f_map, all_corners_f_image) =
     (if is_valid t_map_marker'
      then collect_corners lib l rest
             (append_corners_f_map lib t_map_marker' l all_corners_f_map,
              append_corners_f_image observation all_corners_f_image)
      else collect_corners lib l rest (all_corners_f_map, all_corners_f_image))"

text \<open>
  The test of the mirror-solution guard on the two rotation vectors: each difference is
  computed in \<open>double\<close>, and its absolute value compared with 0.5.
\<close>
definition very_different :: "Vec3d \<Rightarrow> Vec3d \<Rightarrow> bool" where
  "very_different rvec rvecRansac =
     (case (rvec, rvecRansac) of
        ((r0, r1, r2), (s0, s1, s2)) \<Rightarrow>
          \<bar>to_double (r0 - s0)\<bar> > 0.5 \<or>
          \<bar>to_double (r1 - s1)\<bar> > 0.5 \<or>
          \<bar>to_double (r2 - s2)\<bar> > 0.5)"

definition CvFiducialMath_solve_t_map_camera ::
  "'tf Lib \<Rightarrow> CameraInfo \<Rightarrow> Observations \<Rightarrow> 'tf Map_t \<Rightarrow> 'tf TransformWithCovariance" where
  "CvFiducialMath_solve_t_map_camera lib ci observations m =
     (let t_map_markers = find_t_map_markers lib m observations;
          (all_corners_f_map, all_corners_f_image) =
             collect_corners lib (marker_length m) (zip observations t_map_markers) ([], [])
      in if all_corners_f_map = [] then TransformWithCovariance_invalid lib
         else
           let (rvec, tvec) = solvePnP lib all_corners_f_map all_corners_f_image
                                (camera_matrix ci) (dist_coeffs ci);
               (rvec, tvec) =
                 (if length all_corners_f_image > 1 * 4 \<and> length all_corners_f_image < 4 * 4
                  then
                    let (rvecRansac, tvecRansac) =
                          solvePnPRansac lib all_corners_f_map all_corners_f_image
                            (camera_matrix ci) (dist_coeffs ci)
                    in if very_different rvec rvecRansac then (rvecRansac, tvecRansac)
                       else (rvec, tvec)
                  else (rvec, tvec));
               tf2_t_map_camera = Transform_inverse lib (to_tf2_transform lib rvec tvec)
           in TransformWithCovariance_of tf2_t_map_camera)"

definition update_marker_simple_average ::
  "'tf Lib \<Rightarrow> 'tf Marker \<Rightarrow> 'tf TransformWithCovariance \<Rightarrow> 'tf Marker" where
  "update_marker_simple_average lib existing another_twc =
     (if \<not> is_fixed existing
      then
        let t_map_marker' = t_map_marker existing;
            update_count' = update_count existing;
            t_map_marker' = update_simple_average lib t_map_marker' another_twc update_count'
        in existing\<lparr>t_map_marker := t_map_marker', update_count := update_count' + 1\<rparr>
      else existing)"

text \<open>
  \<open>update_map\<close> of the geometric solver: the loop over the observations, each of which
  updates the marker of its id through the pointer \<open>find_marker\<close> returned, or adds a
  new marker.
\<close>
fun CvFiducialMath_update_map ::
  "'tf Lib \<Rightarrow> CameraInfo \<Rightarrow> 'tf TransformWithCovariance \<Rightarrow> Observations \<Rightarrow> 'tf Map_t
     \<Rightarrow> 'tf Map_t" where
  "CvFiducialMath_update_map lib ci t_map_camera [] m = m"
| "CvFiducialMath_update_map lib ci t_map_camera (observation # rest) m =
     (let t_camera_marker =
            CvFiducialMath_solve_t_camera_marker lib ci observation (marker_length m);
          t_map_marker' =
            TransformWithCovariance_of
              (Transform_mul lib (transform t_map_camera) (transform t_camera_marker))
      in case find_marker m (observation_id observation) of
           Some marker \<Rightarrow>
             CvFiducialMath_update_map lib ci t_map_camera rest
               (m\<lparr>markers := (markers m)(observation_id observation \<mapsto>
                     update_marker_simple_average lib marker t_map_marker')\<rparr>)
         | None \<Rightarrow>
             CvFiducialMath_update_map lib ci t_map_camera rest
               (add_marker (Marker_new (observation_id observation) t_map_marker') m))"

section \<open>SamFiducialMath: the factor-graph solver\<close>

record SamFiducialMath =
  sam_cv :: CameraInfo
  sam_cal3ds2 :: Cal3DS2
  sam_corner_measurement_noise :: SharedNoiseModel

definition sam_camera_key :: Key where
  "sam_camera_key = Symbol CHR ''c'' 1"

definition SamFiducialMath_new :: "CameraInfo \<Rightarrow> real \<Rightarrow> SamFiducialMath" where
  "SamFiducialMath_new cv corner_measurement_sigma =
     \<lparr>sam_cv = cv,
      sam_cal3ds2 = Cal3DS2
        (camera_matrix cv ! 0)
        (camera_matrix cv ! 4)
        1.0
        (camera_matrix cv ! 2)
        (camera_matrix cv ! 5)
        (dist_coeffs cv ! 0)
        (dist_coeffs cv ! 1)
        (dist_coeffs cv ! 2)
        (dist_coeffs cv ! 3),
      sam_corner_measurement_noise =
        Diagonal_Sigmas [corner_measurement_sigma, corner_measurement_sigma]\<rparr>"

definition to_pose3 :: "'tf Lib \<Rightarrow> 'tf \<Rightarrow> Pose3" where
  "to_pose3 lib t =
     (let q = getRotation lib t;
          t' = getOrigin lib t
      in Pose3 (Rot3 (qw q) (qx q) (qy q) (qz q)) t')"

definition ro :: "nat list" where
  "ro = [3, 4, 5, 0, 1, 2]"

definition to_cov_sam :: "cov_type \<Rightarrow> Matrix6" where
  "to_cov_sam cov_arr =
     fold (\<lambda>r cov_sam.
             fold (\<lambda>c cov_sam. mat_set cov_sam (ro ! r) (ro ! c) (cov_arr ! (r * 6 + c)))
               [0..<6] cov_sam)
       [0..<6] (replicate 36 0)"

definition to_cov_type :: "Pose3 \<Rightarrow> Matrix6 \<Rightarrow> cov_type" where
  "to_cov_type sam_pose cov_sam =
     fold (\<lambda>r cov_arr.
             fold (\<lambda>c cov_arr. cov_arr[r * 6 + c := mat_get cov_sam (ro ! r) (ro ! c)])
               [0..<6] cov_arr)
       [0..<6] (replicate 36 0)"

definition to_transform_with_covariance ::
  "'tf Lib \<Rightarrow> Pose3 \<Rightarrow> Matrix6 \<Rightarrow> 'tf TransformWithCovariance" where
  "to_transform_with_covariance lib sam_pose sam_cov =
     (let r = rotation sam_pose;
          q1 = [rx r, ry r, rz r, rw r];
          t = translation sam_pose
      in TransformWithCovariance_cov
           (Transform_of_quaternion lib (Quaternion (q1 ! 0) (q1 ! 1) (q1 ! 2) (q1 ! 3)) t)
           (to_cov_type sam_pose sam_cov))"

definition extract_transform_with_covariance ::
  "'tf Lib \<Rightarrow> NonlinearFactorGraph \<Rightarrow> Values \<Rightarrow> Key \<Rightarrow> exn + 'tf TransformWithCovariance" where
  "extract_transform_with_covariance lib graph result key =
     (case Values_at result key of
        Inl e \<Rightarrow> Inl e
      | Inr sam_pose \<Rightarrow>
          Inr (to_transform_with_covariance lib sam_pose
                 (marginalCovariance lib graph result key)))"

text \<open>
  The loop that adds one resectioning factor for each image corner, paired with the
  3D corner of the same index.
\<close>
definition resectioning_factors ::
  "SamFiducialMath \<Rightarrow> Point2f list \<Rightarrow> Point3d list \<Rightarrow> NonlinearFactorGraph" where
  "resectioning_factors sam corners_f_image corners_3d =
     map (\<lambda>(corner_f_image, corner_3d).
            ResectioningFactor (sam_corner_measurement_noise sam) sam_camera_key (sam_cal3ds2 sam)
              corner_f_image corner_3d)
         (zip corners_f_image corners_3d)"

definition solve_camera_f_marker ::
  "'tf Lib \<Rightarrow> SamFiducialMath \<Rightarrow> Observation \<Rightarrow> real
     \<Rightarrow> exn + 'tf TransformWithCovariance" where
  "solve_camera_f_marker lib sam observation marker_length' =
     (let corners_f_marker = append_corners_f_marker marker_length' [];
          corners_f_image = append_corners_f_image observation [];
          graph = resectioning_factors sam corners_f_image corners_f_marker;
          cv_t_camera_marker =
            CvFiducialMath_solve_t_camera_marker lib (sam_cv sam) observation marker_length';
          camera_f_marker_initial =
            to_pose3 lib (Transform_inverse lib (transform cv_t_camera_marker))
      in case Values_insert sam_camera_key camera_f_marker_initial [] of
           Inl e \<Rightarrow> Inl e
         | Inr initial \<Rightarrow>
             let result = LevenbergMarquardtOptimizer_optimize lib graph initial
             in extract_transform_with_covariance lib graph result sam_camera_key)"

text \<open>
  \<open>solve_t_map_camera_sfm\<close>: the localization that resections the camera against the
  map-frame corners. No dispatcher of \<open>FiducialMath\<close> calls it.
\<close>
fun sfm_factors ::
  "'tf Lib \<Rightarrow> SamFiducialMath \<Rightarrow> real \<Rightarrow> (Observation \<times> 'tf TransformWithCovariance) list
     \<Rightarrow> NonlinearFactorGraph \<Rightarrow> NonlinearFactorGraph" where
  "sfm_factors lib sam l [] graph = graph"
| "sfm_factors lib sam l ((observation, t_map_marker') # rest) graph =
     (if is_valid t_map_marker'
      then
        let corners_f_map = append_corners_f_map lib t_map_marker' l [];
            corners_f_image = append_corners_f_image observation []
        in sfm_factors lib sam l rest
             (graph @ resectioning_factors sam corners_f_image corners_f_map)
      else sfm_factors lib sam l rest graph)"

definition solve_t_map_camera_sfm ::
  "'tf Lib \<Rightarrow> SamFiducialMath \<Rightarrow> Observations \<Rightarrow> 'tf Map_t
     \<Rightarrow> exn + 'tf TransformWithCovariance" where
  "solve_t_map_camera_sfm lib sam observations m =
     (let t_map_markers = find_t_map_markers lib m observations;
          cv_t_map_camera = CvFiducialMath_solve_t_map_camera lib (sam_cv sam) observations m
      in if \<not> is_valid cv_t_map_camera then Inr cv_t_map_camera
         else
           let graph = sfm_factors lib sam (marker_length m) (zip observations t_map_markers) []
           in case Values_insert sam_camera_key (to_pose3 lib (transform cv_t_map_camera)) [] of
                Inl e \<Rightarrow> Inl e
              | Inr initial \<Rightarrow>
                  let result = LevenbergMarquardtOptimizer_optimize lib graph initial
                  in extract_transform_with_covariance lib graph result sam_camera_key)"

subsection \<open>Graph construction from the observations\<close>

definition marker_key_of :: "Observation \<Rightarrow> Key" where
  "marker_key_of observation = Symbol CHR ''m'' (uint64_of_int (observation_id observation))"

text \<open>The choice of the noise model of the prior of a known marker.\<close>
definition use_constrained :: "'tf Marker \<Rightarrow> 'tf Map_t \<Rightarrow> bool" where
  "use_constrained marker m =
     (let known_marker_cov = to_cov_sam (cov (t_map_marker marker))
      in is_fixed marker \<or> map_style m = pose \<or> mat_get known_marker_cov 0 0 = 0.0)"

definition known_noise_model :: "'tf Marker \<Rightarrow> 'tf Map_t \<Rightarrow> SharedNoiseModel" where
  "known_noise_model marker m =
     (let known_marker_cov = to_cov_sam (cov (t_map_marker marker))
      in if use_constrained marker m
         then Constrained_MixedSigmas Z_6x1
         else Gaussian_Covariance known_marker_cov)"

text \<open>The branch of the loop body for a marker found in the map.\<close>
fun load_known_marker ::
  "'tf Lib \<Rightarrow> SamFiducialMath \<Rightarrow> 'tf Map_t \<Rightarrow> Key \<Rightarrow> Observation \<Rightarrow> 'tf Marker
     \<Rightarrow> NonlinearFactorGraph \<times> Values \<Rightarrow> exn + NonlinearFactorGraph \<times> Values" where
  "load_known_marker lib sam m camera_key observation marker (graph, initial) =
     (case solve_camera_f_marker lib sam observation (marker_length m) of
        Inl e \<Rightarrow> Inl e
      | Inr camera_f_marker \<Rightarrow>
          let marker_key = marker_key_of observation;
              cov' = to_cov_sam (cov camera_f_marker);
              graph = graph @
                [BetweenFactor marker_key camera_key
                   (to_pose3 lib (transform camera_f_marker)) (Gaussian_Covariance cov')];
              known_marker_f_map = to_pose3 lib (transform (t_map_marker marker));
              graph = graph @
                [PriorFactor marker_key known_marker_f_map (known_noise_model marker m)]
          in (case Values_insert marker_key known_marker_f_map initial of
                Inl e \<Rightarrow> Inl e
              | Inr initial \<Rightarrow> Inr (graph, initial)))"

text \<open>The branch of the loop body for a marker that is not in the map.\<close>
fun load_unknown_marker ::
  "'tf Lib \<Rightarrow> SamFiducialMath \<Rightarrow> 'tf TransformWithCovariance \<Rightarrow> 'tf Map_t \<Rightarrow> Key
     \<Rightarrow> Observation \<Rightarrow> NonlinearFactorGraph \<times> Values
     \<Rightarrow> exn + NonlinearFactorGraph \<times> Values" where
  "load_unknown_marker lib sam t_map_camera m camera_key observation (graph, initial) =
     (case solve_camera_f_marker lib sam observation (marker_length m) of
        Inl e \<Rightarrow> Inl e
      | Inr camera_f_marker \<Rightarrow>
          let marker_key = marker_key_of observation;
              cov' = to_cov_sam (cov camera_f_marker);
              graph = graph @
                [BetweenFactor marker_key camera_key
                   (to_pose3 lib (transform camera_f_marker)) (Gaussian_Covariance cov')];
              unknown_marker_f_map =
                Transform_mul lib (transform t_map_camera)
                  (Transform_inverse lib (transform camera_f_marker))
          in (case Values_insert marker_key (to_pose3 lib unknown_marker_f_map) initial of
                Inl e \<Rightarrow> Inl e
              | Inr initial \<Rightarrow> Inr (graph, initial)))"

fun load_graph_loop ::
  "'tf Lib \<Rightarrow> SamFiducialMath \<Rightarrow> 'tf TransformWithCovariance \<Rightarrow> 'tf Map_t \<Rightarrow> Key \<Rightarrow> bool
     \<Rightarrow> Observations \<Rightarrow> NonlinearFactorGraph \<times> Values
     \<Rightarrow> exn + NonlinearFactorGraph \<times> Values" where
  "load_graph_loop lib sam t_map_camera m camera_key add_unknown_markers [] acc = Inr acc"
| "load_graph_loop lib sam t_map_camera m camera_key add_unknown_markers (observation # rest) acc =
     (let marker_ptr = find_marker m (observation_id observation)
      in case (case marker_ptr of
                 Some marker \<Rightarrow> load_known_marker lib sam m camera_key observation marker acc
               | None \<Rightarrow> Inr acc) of
           Inl e \<Rightarrow> Inl e
         | Inr acc \<Rightarrow>
             (case (if marker_ptr = None \<and> add_unknown_markers
                    then load_unknown_marker lib sam t_map_camera m camera_key observation acc
                    else Inr acc) of
                Inl e \<Rightarrow> Inl e
              | Inr acc \<Rightarrow>
                  load_graph_loop lib sam t_map_camera m camera_key add_unknown_markers
                    rest acc))"

text \<open>
  \<open>load_graph_from_observations\<close> clears the graph and the initial estimate it is
  given, so the model returns the pair built from the empty ones.
\<close>
definition load_graph_from_observations ::
  "'tf Lib \<Rightarrow> SamFiducialMath \<Rightarrow> 'tf TransformWithCovariance \<Rightarrow> Observations \<Rightarrow> 'tf Map_t
     \<Rightarrow> Key \<Rightarrow> bool \<Rightarrow> exn + NonlinearFactorGraph \<times> Values" where
  "load_graph_from_observations lib sam t_map_camera observations m camera_key
       add_unknown_markers =
     (case load_graph_loop lib sam t_map_camera m camera_key add_unknown_markers
             observations ([], []) of
        Inl e \<Rightarrow> Inl e
      | Inr (graph, initial) \<Rightarrow>
          (case Values_insert camera_key (to_pose3 lib (transform t_map_camera)) initial of
             Inl e \<Rightarrow> Inl e
           | Inr initial \<Rightarrow> Inr (graph, initial)))"

text \<open>
  What one pass of the loop body adds to the graph, as a list: for a marker found in the
  map the between factor of the measurement and the prior of the marker; for a marker
  that is not in the map the between factor alone when \<open>add_unknown_markers\<close> is set,
  else nothing. \<open>load_graph_loop_graph\<close> below proves that the graph the loop builds is
  the concatenation of these lists.
\<close>
definition observation_factors ::
  "'tf Lib \<Rightarrow> SamFiducialMath \<Rightarrow> 'tf Map_t \<Rightarrow> Key \<Rightarrow> bool \<Rightarrow> Observation
     \<Rightarrow> NonlinearFactorGraph" where
  "observation_factors lib sam m camera_key add_unknown_markers observation =
     (case solve_camera_f_marker lib sam observation (marker_length m) of
        Inl e \<Rightarrow> []
      | Inr camera_f_marker \<Rightarrow>
          let between =
                BetweenFactor (marker_key_of observation) camera_key
                  (to_pose3 lib (transform camera_f_marker))
                  (Gaussian_Covariance (to_cov_sam (cov camera_f_marker)))
          in (case find_marker m (observation_id observation) of
                Some marker \<Rightarrow>
                  [between,
                   PriorFactor (marker_key_of observation)
                     (to_pose3 lib (transform (t_map_marker marker)))
                     (known_noise_model marker m)]
              | None \<Rightarrow> if add_unknown_markers then [between] else []))"

definition SamFiducialMath_solve_t_map_camera ::
  "'tf Lib \<Rightarrow> SamFiducialMath \<Rightarrow> Observations \<Rightarrow> 'tf Map_t
     \<Rightarrow> exn + 'tf TransformWithCovariance" where
  "SamFiducialMath_solve_t_map_camera lib sam observations m =
     (let cv_t_map_camera = CvFiducialMath_solve_t_map_camera lib (sam_cv sam) observations m
      in if \<not> is_valid cv_t_map_camera then Inr cv_t_map_camera
         else
           case load_graph_from_observations lib sam cv_t_map_camera observations m
                  sam_camera_key False of
             Inl e \<Rightarrow> Inl e
           | Inr (graph, initial) \<Rightarrow>
               let result = LevenbergMarquardtOptimizer_optimize lib graph initial
               in extract_transform_with_covariance lib graph result sam_camera_key)"

text \<open>
  The loop of \<open>update_map\<close> that writes the optimized marker poses back. The map is
  mutated in place, so on an exception the model returns the map as far as it was
  written, with the exception.
\<close>
fun update_map_loop ::
  "'tf Lib \<Rightarrow> NonlinearFactorGraph \<Rightarrow> Values \<Rightarrow> Observations \<Rightarrow> 'tf Map_t
     \<Rightarrow> exn option \<times> 'tf Map_t" where
  "update_map_loop lib graph result [] m = (None, m)"
| "update_map_loop lib graph result (observation # rest) m =
     (let marker_key = marker_key_of observation
      in case extract_transform_with_covariance lib graph result marker_key of
           Inl e \<Rightarrow> (Some e, m)
         | Inr t_map_marker' \<Rightarrow>
             (case find_marker m (observation_id observation) of
                None \<Rightarrow>
                  update_map_loop lib graph result rest
                    (add_marker (Marker_new (observation_id observation) t_map_marker') m)
              | Some marker \<Rightarrow>
                  if \<not> is_fixed marker
                  then update_map_loop lib graph result rest
                         (m\<lparr>markers := (markers m)(observation_id observation \<mapsto>
                               marker\<lparr>t_map_marker := t_map_marker',
                                      update_count := update_count marker + 1\<rparr>)\<rparr>)
                  else update_map_loop lib graph result rest m))"

definition SamFiducialMath_update_map ::
  "'tf Lib \<Rightarrow> SamFiducialMath \<Rightarrow> 'tf TransformWithCovariance \<Rightarrow> Observations \<Rightarrow> 'tf Map_t
     \<Rightarrow> exn option \<times> 'tf Map_t" where
  "SamFiducialMath_update_map lib sam t_map_camera observations m =
     (if \<not> is_valid t_map_camera \<or> length observations < 2 then (None, m)
      else
        let camera_key = Symbol CHR ''c'' 0
        in case load_graph_from_observations lib sam t_map_camera observations m
                  camera_key True of
             Inl e \<Rightarrow> (Some e, m)
           | Inr (graph, initial) \<Rightarrow>
               let result = LevenbergMarquardtOptimizer_optimize lib graph initial
               in update_map_loop lib graph result observations m)"

section \<open>FiducialMath: the dispatcher\<close>

record FiducialMath =
  fm_sam_not_cv :: bool
  fm_cv :: CameraInfo
  fm_sam :: SamFiducialMath

definition FiducialMath_new :: "bool \<Rightarrow> real \<Rightarrow> CameraInfo \<Rightarrow> FiducialMath" where
  "FiducialMath_new sam_not_cv corner_measurement_sigma camera_info =
     \<lparr>fm_sam_not_cv = sam_not_cv,
      fm_cv = camera_info,
      fm_sam = SamFiducialMath_new camera_info corner_measurement_sigma\<rparr>"

definition FiducialMath_solve_t_camera_marker ::
  "'tf Lib \<Rightarrow> FiducialMath \<Rightarrow> Observation \<Rightarrow> real \<Rightarrow> 'tf TransformWithCovariance" where
  "FiducialMath_solve_t_camera_marker lib fm observation marker_length' =
     CvFiducialMath_solve_t_camera_marker lib (fm_cv fm) observation marker_length'"

definition FiducialMath_solve_t_map_camera ::
  "'tf Lib \<Rightarrow> FiducialMath \<Rightarrow> Observations \<Rightarrow> 'tf Map_t
     \<Rightarrow> exn + 'tf TransformWithCovariance" where
  "FiducialMath_solve_t_map_camera lib fm observations m =
     (if fm_sam_not_cv fm
      then SamFiducialMath_solve_t_map_camera lib (fm_sam fm) observations m
      else Inr (CvFiducialMath_solve_t_map_camera lib (fm_cv fm) observations m))"

definition FiducialMath_update_map ::
  "'tf Lib \<Rightarrow> FiducialMath \<Rightarrow> 'tf TransformWithCovariance \<Rightarrow> Observations \<Rightarrow> 'tf Map_t
     \<Rightarrow> exn option \<times> 'tf Map_t" where
  "FiducialMath_update_map lib fm t_map_camera observations m =
     (if fm_sam_not_cv fm
      then SamFiducialMath_update_map lib (fm_sam fm) t_map_camera observations m
      else (None, CvFiducialMath_update_map lib (fm_cv fm) t_map_camera observations m))"

text \<open>
  A sequence of \<open>update_map\<close> calls on one map, each with its own backend, camera pose
  and observations. An exception ends the sequence, and the map stays as it was then.
\<close>
fun run_update_maps ::
  "'tf Lib \<Rightarrow> (FiducialMath \<times> 'tf TransformWithCovariance \<times> Observations) list \<Rightarrow> 'tf Map_t
     \<Rightarrow> exn option \<times> 'tf Map_t" where
  "run_update_maps lib [] m = (None, m)"
| "run_update_maps lib ((fm, t_map_camera, observations) # calls) m =
     (case FiducialMath_update_map lib fm t_map_camera observations m of
        (Some e, m') \<Rightarrow> (Some e, m')
      | (None, m') \<Rightarrow> run_update_maps lib calls m')"

section \<open>VmapNode: the map-building node\<close>

text \<open>The parameters of the node that the source reads (\<open>cxt_\<close>).\<close>
record 'tf VmapContext =
  cxt_make_not_use_map :: bool
  cxt_map_init_style :: int
  cxt_map_init_id :: int
  cxt_map_init_transform :: "'tf TransformWithCovariance"
  cxt_marker_length :: real
  cxt_sam_not_cv :: bool
  cxt_corner_measurement_sigma :: real

record 'tf VmapNode =
  cxt :: "'tf VmapContext"
  node_map :: "'tf Map_t option"
  callbacks_processed :: int

text \<open>\<open>sensor_msgs::msg::CameraInfo\<close>: the intrinsics \<open>k\<close> and the distortion \<open>d\<close>.\<close>
record CameraInfoMsg =
  msg_k :: "real list"
  msg_d :: "real list"

text \<open>
  \<open>fiducial_vlam_msgs::msg::Observations\<close>: the camera info and the observations, which
  the constructor \<open>Observations(msg)\<close> takes over as they are.
\<close>
record ObservationsMsg =
  msg_camera_info :: CameraInfoMsg
  msg_observations :: Observations

definition CvCameraInfo :: "CameraInfoMsg \<Rightarrow> CameraInfo" where
  "CvCameraInfo msg =
     \<lparr>camera_matrix =
        [msg_k msg ! 0, 0, msg_k msg ! 2,
         0, msg_k msg ! 4, msg_k msg ! 5,
         0, 0, 1],
      dist_coeffs =
        [msg_d msg ! 0, msg_d msg ! 1, msg_d msg ! 2, msg_d msg ! 3, msg_d msg ! 4]\<rparr>"

text \<open>
  The calls the node makes to \<open>FiducialMath\<close>, recorded in the order they are made, so
  that a statement can say that a solver ran or did not.
\<close>
datatype solver_call =
    Call_solve_t_camera_marker Observation
  | Call_solve_t_map_camera Observations
  | Call_update_map Observations

definition INT_MAX :: int where
  "INT_MAX = 2147483647"

text \<open>
  The search for the observation with the lowest id. \<open>min_obs\<close> is a pointer that the
  source leaves unassigned until an id below \<open>min_id\<close> is seen.
\<close>
fun find_min_obs :: "Observations \<Rightarrow> int \<times> Observation option \<Rightarrow> int \<times> Observation option" where
  "find_min_obs [] acc = acc"
| "find_min_obs (obs # rest) (min_id, min_obs) =
     (if observation_id obs < min_id
      then find_min_obs rest (observation_id obs, Some obs)
      else find_min_obs rest (min_id, min_obs))"

definition initialize_map_from_observations ::
  "'tf Lib \<Rightarrow> 'tf VmapNode \<Rightarrow> Observations \<Rightarrow> FiducialMath
     \<Rightarrow> exn option \<times> 'tf VmapNode \<times> solver_call list" where
  "initialize_map_from_observations lib nd observations fm =
     (case find_min_obs observations (INT_MAX, None) of
        (min_id, None) \<Rightarrow> (Some UninitializedPointer, nd, [])
      | (min_id, Some min_obs) \<Rightarrow>
          let t_camera_marker =
                FiducialMath_solve_t_camera_marker lib fm min_obs (cxt_marker_length (cxt nd));
              t_map_camera = cxt_map_init_transform (cxt nd);
              t_map_marker' =
                TransformWithCovariance_of
                  (Transform_mul lib (transform t_map_camera) (transform t_camera_marker))
          in (case node_map nd of
                None \<Rightarrow>
                  (Some NullPointerDereference, nd, [Call_solve_t_camera_marker min_obs])
              | Some m \<Rightarrow>
                  (None,
                   nd\<lparr>node_map := Some (add_marker (Marker_new min_id t_map_marker') m)\<rparr>,
                   [Call_solve_t_camera_marker min_obs])))"

definition observations_callback ::
  "'tf Lib \<Rightarrow> ObservationsMsg \<Rightarrow> 'tf VmapNode
     \<Rightarrow> exn option \<times> 'tf VmapNode \<times> solver_call list" where
  "observations_callback lib msg nd0 =
     (let nd = nd0\<lparr>callbacks_processed := callbacks_processed nd0 + 1\<rparr>;
          ci = CvCameraInfo (msg_camera_info msg);
          fm = FiducialMath_new (cxt_sam_not_cv (cxt nd))
                 (cxt_corner_measurement_sigma (cxt nd)) ci;
          observations = msg_observations msg;
          (raised, nd, calls) =
            (if node_map nd = None \<and> length observations > 0
             then initialize_map_from_observations lib nd observations fm
             else (None, nd, []))
      in if raised \<noteq> None then (raised, nd, calls)
         else if length observations < 2 then (None, nd, calls)
         else
           (case node_map nd of
              None \<Rightarrow> (Some NullPointerDereference, nd, calls)
            | Some m \<Rightarrow>
                (case FiducialMath_solve_t_map_camera lib fm observations m of
                   Inl e \<Rightarrow> (Some e, nd, calls @ [Call_solve_t_map_camera observations])
                 | Inr t_map_camera \<Rightarrow>
                     if is_valid t_map_camera
                     then
                       let (raised, m') =
                             FiducialMath_update_map lib fm t_map_camera observations m
                       in (raised, nd\<lparr>node_map := Some m'\<rparr>,
                           calls @ [Call_solve_t_map_camera observations,
                                    Call_update_map observations])
                     else (None, nd, calls @ [Call_solve_t_map_camera observations]))))"

text \<open>
  \<open>initialize_map\<close>. What \<open>from_YAML_file\<close> gives for the configured file is an
  argument: the error message, or the map read.
\<close>
definition initialize_map ::
  "'tf VmapContext \<Rightarrow> string + 'tf Map_t \<Rightarrow> 'tf Map_t option" where
  "initialize_map c from_YAML_file =
     (let style_1 =
            (let new_map_style = (if cxt_sam_not_cv c then covariance else pose);
                 map_unique = Map_new new_map_style (cxt_marker_length c);
                 marker_new = Marker_new (cxt_map_init_id c) (cxt_map_init_transform c);
                 marker_new = marker_new\<lparr>is_fixed := True\<rparr>
             in Some (add_marker marker_new map_unique));
          loaded =
            (if \<not> cxt_make_not_use_map c
             then (case from_YAML_file of Inl err_msg \<Rightarrow> None | Inr map_unique \<Rightarrow> Some map_unique)
             else None)
      in if loaded \<noteq> None then loaded
         else if cxt_map_init_style c = 2 then None
         else
           let new_map_style = (if cxt_sam_not_cv c then covariance else pose)
           in if cxt_map_init_style c = 0
              then
                (case from_YAML_file of
                   Inl err_msg \<Rightarrow> style_1
                 | Inr map_temp \<Rightarrow>
                     (case find_marker map_temp (cxt_map_init_id c) of
                        None \<Rightarrow> style_1
                      | Some marker_temp \<Rightarrow>
                          let marker_copy = marker_temp\<lparr>is_fixed := True\<rparr>;
                              map_unique = Map_new new_map_style (cxt_marker_length c)
                          in Some (add_marker marker_copy map_unique)))
              else style_1)"

section \<open>ToYAML and FromYAML: the map file\<close>







subsection \<open>ToYAML\<close>






subsection \<open>FromYAML\<close>

text \<open>
  A step of the parser raises (\<open>Inl\<close>), or fails through \<open>yaml_error\<close> with a message
  (\<open>Inr (Inl msg)\<close>), or gives a value.
\<close>
type_synonym 'a yaml_result = "exn + (string + 'a)"

definition yaml_error :: "string \<Rightarrow> 'a yaml_result" where
  "yaml_error s = Inr (Inl s)"

definition yaml_ok :: "'a \<Rightarrow> 'a yaml_result" where
  "yaml_ok x = Inr (Inr x)"

definition yaml_bind :: "'a yaml_result \<Rightarrow> ('a \<Rightarrow> 'b yaml_result) \<Rightarrow> 'b yaml_result" where
  "yaml_bind r f =
     (case r of Inl e \<Rightarrow> Inl e | Inr (Inl msg) \<Rightarrow> Inr (Inl msg) | Inr (Inr x) \<Rightarrow> f x)"

















section \<open>Example inputs\<close>

text \<open>
  A small instance of the library, used where a statement is evaluated on concrete
  inputs: transforms are translations, both PnP solvers return a fixed pose (the two
  differ by 1 in the first component of the rotation vector), the optimizer returns its
  initial estimate and every marginal covariance is the all-ones matrix. None of the
  statements evaluated on it depends on these values.
\<close>
definition example_lib :: "Vec3d Lib" where
  "example_lib =
     \<lparr>solvePnP = (\<lambda>ps qs cm dc. ((0, 0, 0), (0, 0, 1))),
      solvePnPRansac = (\<lambda>ps qs cm dc. ((1, 0, 0), (0, 0, 2))),
      Rodrigues = (\<lambda>r. [1, 0, 0, 0, 1, 0, 0, 0, 1]),
      Transform_identity = (0, 0, 0),
      Transform_of_basis = (\<lambda>b t. t),
      Transform_of_quaternion = (\<lambda>q t. t),
      Transform_mul = (\<lambda>(a0, a1, a2) (b0, b1, b2). (a0 + b0, a1 + b1, a2 + b2)),
      Transform_inverse = (\<lambda>(a0, a1, a2). (- a0, - a1, - a2)),
      Transform_apply = (\<lambda>(a0, a1, a2) (b0, b1, b2). (a0 + b0, a1 + b1, a2 + b2)),
      getRotation = (\<lambda>t. Quaternion 0 0 0 1),
      getOrigin = (\<lambda>t. t),
      update_simple_average = (\<lambda>a b n. a),
      LevenbergMarquardtOptimizer_optimize = (\<lambda>graph initial. initial),
      marginalCovariance = (\<lambda>graph result key. replicate 36 1)\<rparr>"

text \<open>
  The same library with two PnP solutions whose rotation vectors differ, in the first
  component, by \<open>1 / 2 + 1 / 2 ^ 60\<close>: a difference that is \<open>0.5\<close> once computed in
  \<open>double\<close>.
\<close>
definition example_lib_mirror :: "Vec3d Lib" where
  "example_lib_mirror =
     example_lib
       \<lparr>solvePnP := (\<lambda>ps qs cm dc. ((1 / 2, 0, 0), (0, 0, 1))),
        solvePnPRansac := (\<lambda>ps qs cm dc. ((- (1 / 2 ^ 60), 0, 0), (0, 0, 2)))\<rparr>"

definition example_ci :: CameraInfo where
  "example_ci =
     \<lparr>camera_matrix = [600, 0, 320, 0, 600, 240, 0, 0, 1], dist_coeffs = [0, 0, 0, 0, 0]\<rparr>"

definition example_sam :: SamFiducialMath where
  "example_sam = SamFiducialMath_new example_ci 1"

definition example_observation :: "int \<Rightarrow> Observation" where
  "example_observation i =
     \<lparr>observation_id = i, x0 = 260, y0 = 180, x1 = 380, y1 = 180,
      x2 = 380, y2 = 300, x3 = 260, y3 = 300\<rparr>"

text \<open>Marker 0, fixed at the origin, and the map of style \<open>covariance\<close> that holds it.\<close>
definition example_marker :: "Vec3d Marker" where
  "example_marker = (Marker_new 0 (TransformWithCovariance_of (0, 0, 0)))\<lparr>is_fixed := True\<rparr>"

definition example_map :: "Vec3d Map_t" where
  "example_map = add_marker example_marker (Map_new covariance 0.1)"

text \<open>
  A covariance whose entry \<open>(0, 0)\<close> is zero and whose other entries are one, marker 7
  (not fixed) that stores it, and the map with the markers 0 and 7.
\<close>
definition example_cov :: cov_type where
  "example_cov = 0 # replicate 35 1"

definition example_marker_7 :: "Vec3d Marker" where
  "example_marker_7 = Marker_new 7 (TransformWithCovariance_cov (0, 0, 0) example_cov)"

definition example_map_7 :: "Vec3d Map_t" where
  "example_map_7 = add_marker example_marker_7 example_map"

text \<open>A node configured for map-initialization style 2, building a map.\<close>
definition example_cxt :: "Vec3d VmapContext" where
  "example_cxt =
     \<lparr>cxt_make_not_use_map = True, cxt_map_init_style = 2, cxt_map_init_id = 0,
      cxt_map_init_transform = TransformWithCovariance_of (0, 0, 0),
      cxt_marker_length = 0.1, cxt_sam_not_cv = True, cxt_corner_measurement_sigma = 1\<rparr>"

definition example_msg :: "Observations \<Rightarrow> ObservationsMsg" where
  "example_msg observations =
     \<lparr>msg_camera_info =
        \<lparr>msg_k = [600, 0, 320, 0, 600, 240, 0, 0, 1], msg_d = [0, 0, 0, 0, 0]\<rparr>,
      msg_observations = observations\<rparr>"

definition example_node :: "Vec3d Map_t option \<Rightarrow> Vec3d VmapNode" where
  "example_node mo = \<lparr>cxt = example_cxt, node_map = mo, callbacks_processed = 0\<rparr>"




lemmas example_defs =
  example_lib_def example_ci_def example_sam_def example_observation_def example_marker_def
  example_map_def example_cov_def example_marker_7_def example_map_7_def
  example_cxt_def example_msg_def example_node_def

lemmas model_defs =
  SamFiducialMath_new_def sam_camera_key_def
  Marker_new_def Map_new_def add_marker_def find_marker_def find_t_map_markers_def
  TransformWithCovariance_of_def TransformWithCovariance_invalid_def
  TransformWithCovariance_cov_def
  append_corners_f_marker_def append_corners_f_image_def append_corners_f_map_def
  to_tf2_transform_def CvFiducialMath_solve_t_camera_marker_def
  CvFiducialMath_solve_t_map_camera_def
  to_pose3_def to_transform_with_covariance_def extract_transform_with_covariance_def
  resectioning_factors_def solve_camera_f_marker_def marker_key_of_def uint64_of_int_def
  Values_insert_def Values_at_def
  load_graph_from_observations_def SamFiducialMath_solve_t_map_camera_def
  known_noise_model_def use_constrained_def Z_6x1_def
  to_cov_type_def to_cov_sam_def upt_rec ro_def mat_get_def mat_set_def numeral_eq_Suc Let_def

section \<open>The graph built from the observations\<close>

lemma load_graph_loop_graph:
  "load_graph_loop lib sam t m ck add observations (g, i) = Inr (g', i') \<Longrightarrow>
   g' = g @ concat (map (observation_factors lib sam m ck add) observations)"
proof (induction observations arbitrary: g i)
  case Nil
  then show ?case by simp
next
  case (Cons observation rest)
  show ?case
  proof (cases "find_marker m (observation_id observation)")
    case None
    show ?thesis
    proof (cases add)
      case False
      with None Cons.prems have "load_graph_loop lib sam t m ck add rest (g, i) = Inr (g', i')"
        by simp
      from Cons.IH [OF this] None False show ?thesis
        by (simp add: observation_factors_def split: sum.splits)
    next
      case True
      with None Cons.prems obtain g1 i1 where
        s: "load_unknown_marker lib sam t m ck observation (g, i) = Inr (g1, i1)"
        and r: "load_graph_loop lib sam t m ck add rest (g1, i1) = Inr (g', i')"
        by (auto split: sum.splits)
      from s have "g1 = g @ observation_factors lib sam m ck add observation"
        using None True
        by (auto simp: observation_factors_def Let_def split: sum.splits)
      with Cons.IH [OF r] show ?thesis by simp
    qed
  next
    case (Some marker)
    with Cons.prems obtain g1 i1 where
      s: "load_known_marker lib sam m ck observation marker (g, i) = Inr (g1, i1)"
      and r: "load_graph_loop lib sam t m ck add rest (g1, i1) = Inr (g', i')"
      by (auto split: sum.splits)
    from s have "g1 = g @ observation_factors lib sam m ck add observation"
      using Some
      by (auto simp: observation_factors_def Let_def split: sum.splits)
    with Cons.IH [OF r] show ?thesis by simp
  qed
qed

lemma load_graph_loop_solved:
  "load_graph_loop lib sam t m ck add observations (g, i) = Inr (g', i') \<Longrightarrow>
   observation \<in> set observations \<Longrightarrow>
   find_marker m (observation_id observation) \<noteq> None \<or> add \<Longrightarrow>
   \<exists>camera_f_marker.
     solve_camera_f_marker lib sam observation (marker_length m) = Inr camera_f_marker"
proof (induction observations arbitrary: g i)
  case Nil
  then show ?case by simp
next
  case (Cons o1 rest)
  from Cons.prems(1) obtain g1 i1 where
    r: "load_graph_loop lib sam t m ck add rest (g1, i1) = Inr (g', i')"
    by (cases "find_marker m (observation_id o1)") (auto split: sum.splits if_splits)
  show ?case
  proof (cases "observation = o1")
    case True
    then show ?thesis
      using Cons.prems(1,3)
      by (cases "find_marker m (observation_id o1)") (auto split: sum.splits if_splits)
  next
    case False
    with Cons.prems(2) have "observation \<in> set rest" by simp
    from Cons.IH [OF r this Cons.prems(3)] show ?thesis .
  qed
qed

lemma Values_at_insert:
  "Values_insert k p vs = Inr vs' \<Longrightarrow> Values_at vs' k = Inr p"
proof -
  assume "Values_insert k p vs = Inr vs'"
  then have n: "k \<notin> fst ` set vs" and v: "vs' = vs @ [(k, p)]"
    by (auto simp: Values_insert_def split: if_splits)
  from n have "map_of vs k = None"
    by (simp add: map_of_eq_None_iff)
  then show ?thesis
    by (simp add: v Values_at_def map_add_def)
qed

lemma collect_corners_invalid:
  "\<forall>z\<in>set zs. \<not> is_valid (snd z) \<Longrightarrow> collect_corners lib l zs acc = acc"
  by (induction lib l zs acc rule: collect_corners.induct) auto

lemma collect_corners_length:
  "collect_corners lib l zs (c3, c2) = (c3', c2') \<Longrightarrow>
   length c3' = length c3 + 4 * length (filter (\<lambda>z. is_valid (snd z)) zs) \<and>
   length c2' = length c2 + 4 * length (filter (\<lambda>z. is_valid (snd z)) zs)"
  by (induction lib l zs "(c3, c2)" arbitrary: c3 c2 rule: collect_corners.induct)
     (auto simp: append_corners_f_map_def append_corners_f_image_def Let_def split: if_splits)

lemma find_t_map_markers_unknown:
  "\<forall>observation\<in>set observations. find_marker m (observation_id observation) = None \<Longrightarrow>
   \<forall>z\<in>set (zip observations (find_t_map_markers lib m observations)). \<not> is_valid (snd z)"
proof -
  assume u: "\<forall>observation\<in>set observations. find_marker m (observation_id observation) = None"
  have "\<forall>t\<in>set (find_t_map_markers lib m observations). \<not> is_valid t"
    using u by (auto simp: find_t_map_markers_def TransformWithCovariance_invalid_def)
  then show ?thesis
    by (auto dest: set_zip_rightD)
qed

lemma CvFiducialMath_solve_t_map_camera_unknown:
  "\<forall>observation\<in>set observations. find_marker m (observation_id observation) = None \<Longrightarrow>
   CvFiducialMath_solve_t_map_camera lib ci observations m = TransformWithCovariance_invalid lib"
  using collect_corners_invalid [OF find_t_map_markers_unknown, of observations m lib]
  by (simp add: CvFiducialMath_solve_t_map_camera_def)

lemma TransformWithCovariance_invalid_not_valid:
  "\<not> is_valid (TransformWithCovariance_invalid lib)"
  by (simp add: TransformWithCovariance_invalid_def)

lemma FiducialMath_solve_t_map_camera_unknown:
  "\<forall>observation\<in>set observations. find_marker m (observation_id observation) = None \<Longrightarrow>
   FiducialMath_solve_t_map_camera lib fm observations m = Inr (TransformWithCovariance_invalid lib)"
  by (simp add: FiducialMath_solve_t_map_camera_def SamFiducialMath_solve_t_map_camera_def
        CvFiducialMath_solve_t_map_camera_unknown TransformWithCovariance_invalid_not_valid)

section \<open>Fixed markers under a map update\<close>

lemma add_marker_other:
  "markers m i = Some mk \<Longrightarrow> markers (add_marker mk' m) i = Some mk"
  by (auto simp: add_marker_def)

lemma update_marker_simple_average_fixed:
  "is_fixed mk \<Longrightarrow> update_marker_simple_average lib mk t = mk"
  by (simp add: update_marker_simple_average_def)

lemma CvFiducialMath_update_map_fixed:
  "markers m i = Some mk \<Longrightarrow> is_fixed mk \<Longrightarrow>
   markers (CvFiducialMath_update_map lib ci t_map_camera observations m) i = Some mk"
proof (induction observations arbitrary: m)
  case Nil
  then show ?case by simp
next
  case (Cons observation rest)
  show ?case
  proof (cases "find_marker m (observation_id observation)")
    case None
    then show ?thesis
      using Cons.prems by (simp add: Let_def Cons.IH add_marker_other)
  next
    case (Some marker)
    have "markers (m\<lparr>markers := (markers m)(observation_id observation \<mapsto>
                     update_marker_simple_average lib marker t)\<rparr>) i = Some mk" for t
      using Cons.prems Some
      by (auto simp: find_marker_def update_marker_simple_average_fixed)
    then show ?thesis
      using Some Cons.prems by (simp add: Let_def Cons.IH)
  qed
qed

lemma update_map_loop_fixed:
  "markers m i = Some mk \<Longrightarrow> is_fixed mk \<Longrightarrow>
   markers (snd (update_map_loop lib graph result observations m)) i = Some mk"
proof (induction observations arbitrary: m)
  case Nil
  then show ?case by simp
next
  case (Cons observation rest)
  show ?case
  proof (cases "extract_transform_with_covariance lib graph result (marker_key_of observation)")
    case (Inl e)
    then show ?thesis using Cons.prems by simp
  next
    case (Inr t)
    show ?thesis
    proof (cases "find_marker m (observation_id observation)")
      case None
      then show ?thesis
        using Inr Cons.prems by (simp add: Cons.IH add_marker_other)
    next
      case (Some marker)
      show ?thesis
      proof (cases "is_fixed marker")
        case True
        then show ?thesis using Inr Some Cons.prems by (simp add: Cons.IH)
      next
        case False
        then have "observation_id observation \<noteq> i"
          using Some Cons.prems by (auto simp: find_marker_def)
        then have "markers (m\<lparr>markers := (markers m)(observation_id observation \<mapsto> x)\<rparr>) i = Some mk" for x
          using Cons.prems by simp
        then show ?thesis
          using Inr Some False Cons.prems by (simp add: Cons.IH)
      qed
    qed
  qed
qed

lemma SamFiducialMath_update_map_fixed:
  "markers m i = Some mk \<Longrightarrow> is_fixed mk \<Longrightarrow>
   markers (snd (SamFiducialMath_update_map lib sam t_map_camera observations m)) i = Some mk"
  by (auto simp: SamFiducialMath_update_map_def Let_def update_map_loop_fixed
           split: sum.splits)

lemma FiducialMath_update_map_fixed:
  "markers m i = Some mk \<Longrightarrow> is_fixed mk \<Longrightarrow>
   markers (snd (FiducialMath_update_map lib fm t_map_camera observations m)) i = Some mk"
  by (simp add: FiducialMath_update_map_def SamFiducialMath_update_map_fixed
        CvFiducialMath_update_map_fixed)

section \<open>The covariance permutation\<close>

lemma upt_6: "[0..<6] = [0, 1, 2, 3, 4, 5]"
  by (simp add: upt_rec)

lemma replicate_36:
  "replicate 36 (x::real) =
     [x, x, x, x, x, x, x, x, x, x, x, x, x, x, x, x, x, x,
      x, x, x, x, x, x, x, x, x, x, x, x, x, x, x, x, x, x]"
  by (simp add: numeral_eq_Suc)

lemma list_36:
  assumes "length (c::real list) = 36"
  obtains c0 c1 c2 c3 c4 c5 c6 c7 c8 c9 c10 c11 c12 c13 c14 c15 c16 c17
    c18 c19 c20 c21 c22 c23 c24 c25 c26 c27 c28 c29 c30 c31 c32 c33 c34 c35
  where "c = [c0, c1, c2, c3, c4, c5, c6, c7, c8, c9, c10, c11, c12, c13, c14, c15, c16, c17,
              c18, c19, c20, c21, c22, c23, c24, c25, c26, c27, c28, c29, c30, c31, c32, c33,
              c34, c35]"
proof -
  have "c = map (\<lambda>i. c ! i) [0..<36]"
    using assms by (metis map_nth)
  also have "[0..<36] =
      [0, 1, 2, 3, 4, 5, 6, 7, 8, 9, 10, 11, 12, 13, 14, 15, 16, 17,
       18, 19, 20, 21, 22, 23, 24, 25, 26, 27, 28, 29, 30, 31, 32, 33, 34, 35]"
    by (simp add: upt_rec)
  finally show ?thesis using that by simp
qed

text \<open>Both conversions, written out on the 36 entries.\<close>
lemma to_cov_sam_explicit:
  "to_cov_sam [c0, c1, c2, c3, c4, c5, c6, c7, c8, c9, c10, c11, c12, c13, c14, c15, c16, c17,
               c18, c19, c20, c21, c22, c23, c24, c25, c26, c27, c28, c29, c30, c31, c32, c33,
               c34, c35]
   = [c21, c22, c23, c18, c19, c20,
      c27, c28, c29, c24, c25, c26,
      c33, c34, c35, c30, c31, c32,
      c3, c4, c5, c0, c1, c2,
      c9, c10, c11, c6, c7, c8,
      c15, c16, c17, c12, c13, c14]"
  by (simp add: to_cov_sam_def upt_6 ro_def mat_set_def replicate_36)

lemma to_cov_type_explicit:
  "to_cov_type sam_pose
     [c0, c1, c2, c3, c4, c5, c6, c7, c8, c9, c10, c11, c12, c13, c14, c15, c16, c17,
      c18, c19, c20, c21, c22, c23, c24, c25, c26, c27, c28, c29, c30, c31, c32, c33,
      c34, c35]
   = [c21, c22, c23, c18, c19, c20,
      c27, c28, c29, c24, c25, c26,
      c33, c34, c35, c30, c31, c32,
      c3, c4, c5, c0, c1, c2,
      c9, c10, c11, c6, c7, c8,
      c15, c16, c17, c12, c13, c14]"
  by (simp add: to_cov_type_def upt_6 ro_def mat_get_def replicate_36)

lemma to_cov_sam_0_0:
  assumes "length c = 36"
  shows "mat_get (to_cov_sam c) 0 0 = c ! 21"
proof -
  from assms obtain c0 c1 c2 c3 c4 c5 c6 c7 c8 c9 c10 c11 c12 c13 c14 c15 c16 c17
    c18 c19 c20 c21 c22 c23 c24 c25 c26 c27 c28 c29 c30 c31 c32 c33 c34 c35
    where c: "c = [c0, c1, c2, c3, c4, c5, c6, c7, c8, c9, c10, c11, c12, c13, c14, c15, c16,
                   c17, c18, c19, c20, c21, c22, c23, c24, c25, c26, c27, c28, c29, c30, c31,
                   c32, c33, c34, c35]"
    by (rule list_36)
  show ?thesis
    unfolding c to_cov_sam_explicit by (simp add: mat_get_def)
qed

lemma known_noise_model_stored:
  assumes "length (cov (t_map_marker marker)) = 36"
  shows "known_noise_model marker m =
           (if is_fixed marker \<or> map_style m = pose \<or> cov (t_map_marker marker) ! 21 = 0
            then Constrained_MixedSigmas Z_6x1
            else Gaussian_Covariance (to_cov_sam (cov (t_map_marker marker))))"
  by (simp add: known_noise_model_def use_constrained_def Let_def to_cov_sam_0_0 [OF assms])

section \<open>C1: the graph of the factor-graph localization\<close>

text \<open>
  C1, as stated, fails. Marker 0 is in the map and is observed, and the geometric
  estimate is valid; the graph \<open>solve_t_map_camera\<close> builds through
  \<open>load_graph_from_observations\<close> holds one between factor and one prior on the marker
  variable \<open>m0\<close>, beside the camera variable \<open>c1\<close>, and no resectioning factor.
\<close>
theorem localization_graph_counterexample:
  "is_valid (CvFiducialMath_solve_t_map_camera example_lib (sam_cv example_sam)
               [example_observation 0] example_map) \<and>
   find_marker example_map (observation_id (example_observation 0)) = Some example_marker \<and>
   load_graph_from_observations example_lib example_sam
     (CvFiducialMath_solve_t_map_camera example_lib (sam_cv example_sam)
        [example_observation 0] example_map)
     [example_observation 0] example_map sam_camera_key False =
   Inr ([BetweenFactor (Symbol CHR ''m'' 0) (Symbol CHR ''c'' 1)
           (Pose3 (Rot3 1 0 0 0) (0, 0, - 1)) (Gaussian_Covariance (replicate 36 1)),
         PriorFactor (Symbol CHR ''m'' 0) (Pose3 (Rot3 1 0 0 0) (0, 0, 0))
           (Constrained_MixedSigmas [0, 0, 0, 0, 0, 0])],
        [(Symbol CHR ''m'' 0, Pose3 (Rot3 1 0 0 0) (0, 0, 0)),
         (Symbol CHR ''c'' 1, Pose3 (Rot3 1 0 0 0) (0, 0, - 1))])"
  by (simp add: example_defs model_defs)

text \<open>
  C1, amended. For every call to the factor-graph \<open>solve_t_map_camera\<close> whose geometric
  estimate is valid and whose graph construction returns, the graph holds, for each
  observation whose marker is known in the map and in the order of the observations,
  one between factor from the marker variable to the camera variable, whose measurement
  is the result of \<open>solve_camera_f_marker\<close> on that observation, and one prior on the
  marker variable at its map pose; an observation of an unknown marker adds nothing, and
  the graph holds no resectioning factor. The camera variable is initialized with the
  geometric estimate, and the returned transform is the one extracted at the camera key
  from the optimized values with the marginal covariance.
\<close>
theorem localization_graph:
  assumes v: "is_valid (CvFiducialMath_solve_t_map_camera lib (sam_cv sam) observations m)"
    and l: "load_graph_from_observations lib sam
              (CvFiducialMath_solve_t_map_camera lib (sam_cv sam) observations m)
              observations m sam_camera_key False = Inr (graph, initial)"
  shows "graph = concat (map (observation_factors lib sam m sam_camera_key False) observations) \<and>
         (\<forall>observation\<in>set observations. \<forall>marker.
            find_marker m (observation_id observation) = Some marker \<longrightarrow>
            (\<exists>camera_f_marker.
               solve_camera_f_marker lib sam observation (marker_length m) = Inr camera_f_marker \<and>
               observation_factors lib sam m sam_camera_key False observation =
                 [BetweenFactor (marker_key_of observation) sam_camera_key
                    (to_pose3 lib (transform camera_f_marker))
                    (Gaussian_Covariance (to_cov_sam (cov camera_f_marker))),
                  PriorFactor (marker_key_of observation)
                    (to_pose3 lib (transform (t_map_marker marker)))
                    (known_noise_model marker m)])) \<and>
         (\<forall>observation\<in>set observations.
            find_marker m (observation_id observation) = None \<longrightarrow>
            observation_factors lib sam m sam_camera_key False observation = []) \<and>
         (\<forall>n k c p P. ResectioningFactor n k c p P \<notin> set graph) \<and>
         Values_at initial sam_camera_key =
           Inr (to_pose3 lib
                  (transform (CvFiducialMath_solve_t_map_camera lib (sam_cv sam) observations m))) \<and>
         SamFiducialMath_solve_t_map_camera lib sam observations m =
           extract_transform_with_covariance lib graph
             (LevenbergMarquardtOptimizer_optimize lib graph initial) sam_camera_key"
proof -
  let ?t = "CvFiducialMath_solve_t_map_camera lib (sam_cv sam) observations m"
  from l obtain i0 where
    loop: "load_graph_loop lib sam ?t m sam_camera_key False observations ([], []) = Inr (graph, i0)"
    and ins: "Values_insert sam_camera_key (to_pose3 lib (transform ?t)) i0 = Inr initial"
    by (auto simp: load_graph_from_observations_def split: sum.splits)
  have g: "graph = concat (map (observation_factors lib sam m sam_camera_key False) observations)"
    using load_graph_loop_graph [OF loop] by simp
  have known: "\<exists>camera_f_marker.
               solve_camera_f_marker lib sam observation (marker_length m) = Inr camera_f_marker \<and>
               observation_factors lib sam m sam_camera_key False observation =
                 [BetweenFactor (marker_key_of observation) sam_camera_key
                    (to_pose3 lib (transform camera_f_marker))
                    (Gaussian_Covariance (to_cov_sam (cov camera_f_marker))),
                  PriorFactor (marker_key_of observation)
                    (to_pose3 lib (transform (t_map_marker marker)))
                    (known_noise_model marker m)]"
    if "observation \<in> set observations" "find_marker m (observation_id observation) = Some marker"
    for observation marker
  proof -
    from load_graph_loop_solved [OF loop that(1)] that(2) obtain camera_f_marker where
      "solve_camera_f_marker lib sam observation (marker_length m) = Inr camera_f_marker"
      by auto
    then show ?thesis
      using that(2) by (simp add: observation_factors_def)
  qed
  have unknown: "observation_factors lib sam m sam_camera_key False observation = []"
    if "find_marker m (observation_id observation) = None" for observation
    using that by (simp add: observation_factors_def split: sum.splits)
  have nores: "ResectioningFactor n k c p P \<notin> set graph" for n k c p P
    unfolding g
    by (auto simp: observation_factors_def Let_def split: sum.splits option.splits)
  have cam: "Values_at initial sam_camera_key = Inr (to_pose3 lib (transform ?t))"
    using Values_at_insert [OF ins] .
  have res: "SamFiducialMath_solve_t_map_camera lib sam observations m =
           extract_transform_with_covariance lib graph
             (LevenbergMarquardtOptimizer_optimize lib graph initial) sam_camera_key"
    using v l by (simp add: SamFiducialMath_solve_t_map_camera_def)
  from g known unknown nores cam res show ?thesis
    by blast
qed

text \<open>
  The witness of C1: the markers 0 (known) and 1 (unknown) are observed on
  \<open>example_map\<close>.
\<close>
theorem localization_graph_witness:
  "is_valid (CvFiducialMath_solve_t_map_camera example_lib (sam_cv example_sam)
               [example_observation 0, example_observation 1] example_map) \<and>
   SamFiducialMath_solve_t_map_camera example_lib example_sam
     [example_observation 0, example_observation 1] example_map =
   extract_transform_with_covariance example_lib
     [BetweenFactor (Symbol CHR ''m'' 0) (Symbol CHR ''c'' 1)
        (Pose3 (Rot3 1 0 0 0) (0, 0, - 1)) (Gaussian_Covariance (replicate 36 1)),
      PriorFactor (Symbol CHR ''m'' 0) (Pose3 (Rot3 1 0 0 0) (0, 0, 0))
        (Constrained_MixedSigmas [0, 0, 0, 0, 0, 0])]
     (LevenbergMarquardtOptimizer_optimize example_lib
        [BetweenFactor (Symbol CHR ''m'' 0) (Symbol CHR ''c'' 1)
           (Pose3 (Rot3 1 0 0 0) (0, 0, - 1)) (Gaussian_Covariance (replicate 36 1)),
         PriorFactor (Symbol CHR ''m'' 0) (Pose3 (Rot3 1 0 0 0) (0, 0, 0))
           (Constrained_MixedSigmas [0, 0, 0, 0, 0, 0])]
        [(Symbol CHR ''m'' 0, Pose3 (Rot3 1 0 0 0) (0, 0, 0)),
         (Symbol CHR ''c'' 1, Pose3 (Rot3 1 0 0 0) (0, 0, - 1))])
     sam_camera_key"
proof -
  let ?obs = "[example_observation 0, example_observation 1]"
  let ?t = "CvFiducialMath_solve_t_map_camera example_lib (sam_cv example_sam) ?obs example_map"
  have v: "is_valid ?t"
    by (simp add: example_defs model_defs)
  have l: "load_graph_from_observations example_lib example_sam ?t ?obs example_map
             sam_camera_key False =
           Inr ([BetweenFactor (Symbol CHR ''m'' 0) (Symbol CHR ''c'' 1)
                   (Pose3 (Rot3 1 0 0 0) (0, 0, - 1)) (Gaussian_Covariance (replicate 36 1)),
                 PriorFactor (Symbol CHR ''m'' 0) (Pose3 (Rot3 1 0 0 0) (0, 0, 0))
                   (Constrained_MixedSigmas [0, 0, 0, 0, 0, 0])],
                [(Symbol CHR ''m'' 0, Pose3 (Rot3 1 0 0 0) (0, 0, 0)),
                 (Symbol CHR ''c'' 1, Pose3 (Rot3 1 0 0 0) (0, 0, - 1))])"
    by (simp add: example_defs model_defs)
  from localization_graph [OF v l] v show ?thesis
    by blast
qed

section \<open>C2: the noise model of a known marker's prior\<close>

text \<open>
  C2, as stated, fails. Marker 7 is not fixed, the style of the map is \<open>covariance\<close>,
  and the stored covariance has zero at position \<open>(0, 0)\<close>; the prior added for it has
  the Gaussian noise model: the entry tested is \<open>(0, 0)\<close> of the covariance converted
  by \<open>to_cov_sam\<close>, which is the stored entry \<open>(3, 3)\<close>.
\<close>
theorem prior_noise_model_counterexample:
  "find_marker example_map_7 (observation_id (example_observation 7)) = Some example_marker_7 \<and>
   \<not> is_fixed example_marker_7 \<and>
   map_style example_map_7 \<noteq> pose \<and>
   cov (t_map_marker example_marker_7) ! (0 * 6 + 0) = 0 \<and>
   load_graph_from_observations example_lib example_sam
     (TransformWithCovariance_of (0, 0, - 1)) [example_observation 7] example_map_7
     (Symbol CHR ''c'' 0) True =
   Inr ([BetweenFactor (Symbol CHR ''m'' 7) (Symbol CHR ''c'' 0)
           (Pose3 (Rot3 1 0 0 0) (0, 0, - 1)) (Gaussian_Covariance (replicate 36 1)),
         PriorFactor (Symbol CHR ''m'' 7) (Pose3 (Rot3 1 0 0 0) (0, 0, 0))
           (Gaussian_Covariance (to_cov_sam example_cov))],
        [(Symbol CHR ''m'' 7, Pose3 (Rot3 1 0 0 0) (0, 0, 0)),
         (Symbol CHR ''c'' 0, Pose3 (Rot3 1 0 0 0) (0, 0, - 1))])"
  by (simp add: example_defs model_defs)

text \<open>
  C2, amended. In the graph built by \<open>load_graph_from_observations\<close> (for the
  localization and for the map update), the prior added for a known marker has the
  constrained noise model with the zero sigma vector if and only if the marker is fixed,
  or the style of the map is \<open>pose\<close>, or the stored covariance has zero at position
  \<open>(3, 3)\<close> (index 21, the entry that \<open>to_cov_sam\<close> moves to \<open>(0, 0)\<close>); in
  every other case it has the Gaussian noise model built from the stored covariance
  converted by \<open>to_cov_sam\<close>. Every prior of the graph is such a prior.
\<close>
theorem prior_noise_model:
  assumes l: "load_graph_from_observations lib sam t_map_camera observations m camera_key
                add_unknown_markers = Inr (graph, initial)"
    and c: "\<forall>marker\<in>ran (markers m). length (cov (t_map_marker marker)) = 36"
  shows "(\<forall>observation\<in>set observations. \<forall>marker.
            find_marker m (observation_id observation) = Some marker \<longrightarrow>
            PriorFactor (marker_key_of observation)
              (to_pose3 lib (transform (t_map_marker marker)))
              (if is_fixed marker \<or> map_style m = pose \<or> cov (t_map_marker marker) ! 21 = 0
               then Constrained_MixedSigmas Z_6x1
               else Gaussian_Covariance (to_cov_sam (cov (t_map_marker marker))))
            \<in> set graph) \<and>
         (\<forall>k p n. PriorFactor k p n \<in> set graph \<longrightarrow>
            (\<exists>observation\<in>set observations. \<exists>marker.
               find_marker m (observation_id observation) = Some marker \<and>
               k = marker_key_of observation \<and>
               p = to_pose3 lib (transform (t_map_marker marker)) \<and>
               n = (if is_fixed marker \<or> map_style m = pose \<or>
                       cov (t_map_marker marker) ! 21 = 0
                    then Constrained_MixedSigmas Z_6x1
                    else Gaussian_Covariance (to_cov_sam (cov (t_map_marker marker))))))"
proof -
  from l obtain i0 where
    loop: "load_graph_loop lib sam t_map_camera m camera_key add_unknown_markers observations
             ([], []) = Inr (graph, i0)"
    by (auto simp: load_graph_from_observations_def split: sum.splits)
  have g: "graph = concat (map (observation_factors lib sam m camera_key add_unknown_markers)
                             observations)"
    using load_graph_loop_graph [OF loop] by simp
  have len: "length (cov (t_map_marker marker)) = 36"
    if "find_marker m i = Some marker" for i marker
    using c that by (auto simp: find_marker_def ran_def)
  have a: "PriorFactor (marker_key_of observation)
              (to_pose3 lib (transform (t_map_marker marker)))
              (if is_fixed marker \<or> map_style m = pose \<or> cov (t_map_marker marker) ! 21 = 0
               then Constrained_MixedSigmas Z_6x1
               else Gaussian_Covariance (to_cov_sam (cov (t_map_marker marker))))
            \<in> set graph"
    if o: "observation \<in> set observations"
      and f: "find_marker m (observation_id observation) = Some marker"
    for observation marker
  proof -
    from load_graph_loop_solved [OF loop o] f obtain camera_f_marker where
      "solve_camera_f_marker lib sam observation (marker_length m) = Inr camera_f_marker"
      by auto
    then have "PriorFactor (marker_key_of observation)
              (to_pose3 lib (transform (t_map_marker marker))) (known_noise_model marker m)
            \<in> set (observation_factors lib sam m camera_key add_unknown_markers observation)"
      using f by (simp add: observation_factors_def)
    then show ?thesis
      using o unfolding g known_noise_model_stored [OF len [OF f]] by auto
  qed
  have b: "\<exists>observation\<in>set observations. \<exists>marker.
               find_marker m (observation_id observation) = Some marker \<and>
               k = marker_key_of observation \<and>
               p = to_pose3 lib (transform (t_map_marker marker)) \<and>
               n = (if is_fixed marker \<or> map_style m = pose \<or>
                       cov (t_map_marker marker) ! 21 = 0
                    then Constrained_MixedSigmas Z_6x1
                    else Gaussian_Covariance (to_cov_sam (cov (t_map_marker marker))))"
    if "PriorFactor k p n \<in> set graph" for k p n
  proof -
    from that obtain observation where
      o: "observation \<in> set observations"
      and i: "PriorFactor k p n \<in>
                set (observation_factors lib sam m camera_key add_unknown_markers observation)"
      unfolding g by auto
    from i obtain marker where
      f: "find_marker m (observation_id observation) = Some marker"
      and e: "k = marker_key_of observation"
        "p = to_pose3 lib (transform (t_map_marker marker))"
        "n = known_noise_model marker m"
      by (auto simp: observation_factors_def Let_def split: sum.splits option.splits if_splits)
    from o f e show ?thesis
      unfolding known_noise_model_stored [OF len [OF f]] by blast
  qed
  from a b show ?thesis by blast
qed

text \<open>The witness of C2: the markers 7 and 0 are observed on \<open>example_map_7\<close>.\<close>
theorem prior_noise_model_witness:
  "load_graph_from_observations example_lib example_sam
     (TransformWithCovariance_of (0, 0, - 1)) [example_observation 7, example_observation 0]
     example_map_7 (Symbol CHR ''c'' 0) True =
   Inr ([BetweenFactor (Symbol CHR ''m'' 7) (Symbol CHR ''c'' 0)
           (Pose3 (Rot3 1 0 0 0) (0, 0, - 1)) (Gaussian_Covariance (replicate 36 1)),
         PriorFactor (Symbol CHR ''m'' 7) (Pose3 (Rot3 1 0 0 0) (0, 0, 0))
           (Gaussian_Covariance (to_cov_sam example_cov)),
         BetweenFactor (Symbol CHR ''m'' 0) (Symbol CHR ''c'' 0)
           (Pose3 (Rot3 1 0 0 0) (0, 0, - 1)) (Gaussian_Covariance (replicate 36 1)),
         PriorFactor (Symbol CHR ''m'' 0) (Pose3 (Rot3 1 0 0 0) (0, 0, 0))
           (Constrained_MixedSigmas [0, 0, 0, 0, 0, 0])],
        [(Symbol CHR ''m'' 7, Pose3 (Rot3 1 0 0 0) (0, 0, 0)),
         (Symbol CHR ''m'' 0, Pose3 (Rot3 1 0 0 0) (0, 0, 0)),
         (Symbol CHR ''c'' 0, Pose3 (Rot3 1 0 0 0) (0, 0, - 1))]) \<and>
   length (cov (t_map_marker example_marker_7)) = 36 \<and>
   length (cov (t_map_marker example_marker)) = 36 \<and>
   find_marker example_map_7 (observation_id (example_observation 7)) = Some example_marker_7 \<and>
   PriorFactor (marker_key_of (example_observation 7))
     (to_pose3 example_lib (transform (t_map_marker example_marker_7)))
     (if is_fixed example_marker_7 \<or> map_style example_map_7 = pose \<or>
         cov (t_map_marker example_marker_7) ! 21 = 0
      then Constrained_MixedSigmas Z_6x1
      else Gaussian_Covariance (to_cov_sam (cov (t_map_marker example_marker_7))))
   \<in> set [BetweenFactor (Symbol CHR ''m'' 7) (Symbol CHR ''c'' 0)
             (Pose3 (Rot3 1 0 0 0) (0, 0, - 1)) (Gaussian_Covariance (replicate 36 1)),
           PriorFactor (Symbol CHR ''m'' 7) (Pose3 (Rot3 1 0 0 0) (0, 0, 0))
             (Gaussian_Covariance (to_cov_sam example_cov)),
           BetweenFactor (Symbol CHR ''m'' 0) (Symbol CHR ''c'' 0)
             (Pose3 (Rot3 1 0 0 0) (0, 0, - 1)) (Gaussian_Covariance (replicate 36 1)),
           PriorFactor (Symbol CHR ''m'' 0) (Pose3 (Rot3 1 0 0 0) (0, 0, 0))
             (Constrained_MixedSigmas [0, 0, 0, 0, 0, 0])]"
proof -
  let ?graph =
    "[BetweenFactor (Symbol CHR ''m'' 7) (Symbol CHR ''c'' 0)
        (Pose3 (Rot3 1 0 0 0) (0, 0, - 1)) (Gaussian_Covariance (replicate 36 1)),
      PriorFactor (Symbol CHR ''m'' 7) (Pose3 (Rot3 1 0 0 0) (0, 0, 0))
        (Gaussian_Covariance (to_cov_sam example_cov)),
      BetweenFactor (Symbol CHR ''m'' 0) (Symbol CHR ''c'' 0)
        (Pose3 (Rot3 1 0 0 0) (0, 0, - 1)) (Gaussian_Covariance (replicate 36 1)),
      PriorFactor (Symbol CHR ''m'' 0) (Pose3 (Rot3 1 0 0 0) (0, 0, 0))
        (Constrained_MixedSigmas [0, 0, 0, 0, 0, 0])]"
  have l: "load_graph_from_observations example_lib example_sam
     (TransformWithCovariance_of (0, 0, - 1)) [example_observation 7, example_observation 0]
     example_map_7 (Symbol CHR ''c'' 0) True =
   Inr (?graph,
        [(Symbol CHR ''m'' 7, Pose3 (Rot3 1 0 0 0) (0, 0, 0)),
         (Symbol CHR ''m'' 0, Pose3 (Rot3 1 0 0 0) (0, 0, 0)),
         (Symbol CHR ''c'' 0, Pose3 (Rot3 1 0 0 0) (0, 0, - 1))])"
    by (simp add: example_defs model_defs)
  have l7: "length (cov (t_map_marker example_marker_7)) = 36"
    and l0: "length (cov (t_map_marker example_marker)) = 36"
    by (simp_all add: example_defs model_defs)
  have c: "\<forall>marker\<in>ran (markers example_map_7). length (cov (t_map_marker marker)) = 36"
    by (auto simp: example_defs model_defs ran_def split: if_splits)
  have f: "find_marker example_map_7 (observation_id (example_observation 7))
             = Some example_marker_7"
    by (simp add: example_defs model_defs)
  have "example_observation 7 \<in> set [example_observation 7, example_observation 0]"
    by simp
  with prior_noise_model [OF l c] f
  have "PriorFactor (marker_key_of (example_observation 7))
     (to_pose3 example_lib (transform (t_map_marker example_marker_7)))
     (if is_fixed example_marker_7 \<or> map_style example_map_7 = pose \<or>
         cov (t_map_marker example_marker_7) ! 21 = 0
      then Constrained_MixedSigmas Z_6x1
      else Gaussian_Covariance (to_cov_sam (cov (t_map_marker example_marker_7))))
   \<in> set ?graph"
    by blast
  with l l7 l0 f show ?thesis
    by blast
qed

section \<open>C3: no known marker in sight\<close>

text \<open>
  C3, as stated, fails in its second half. The geometric \<open>update_map\<close> does not test
  the validity of the camera pose: called with an invalid pose and an observation of
  marker 1, which the map does not hold, it inserts marker 1.
\<close>
theorem no_known_markers_counterexample:
  "\<not> is_valid (TransformWithCovariance_invalid example_lib) \<and>
   find_marker example_map 1 = None \<and>
   find_marker
     (snd (FiducialMath_update_map example_lib (FiducialMath_new False 1 example_ci)
             (TransformWithCovariance_invalid example_lib) [example_observation 1] example_map))
     1 =
   Some \<lparr>marker_id = 1,
         t_map_marker = \<lparr>is_valid = True, transform = (0, 0, 1), cov = replicate 36 0\<rparr>,
         update_count = 1, is_fixed = False\<rparr>"
  by (simp add: example_defs model_defs FiducialMath_update_map_def FiducialMath_new_def)

lemma observations_callback_invalid:
  assumes nm: "node_map nd = Some m"
    and u: "\<forall>observation\<in>set (msg_observations msg).
              find_marker m (observation_id observation) = None"
  shows "observations_callback lib msg nd =
           (None, nd\<lparr>callbacks_processed := callbacks_processed nd + 1\<rparr>,
            if length (msg_observations msg) < 2 then []
            else [Call_solve_t_map_camera (msg_observations msg)])"
  using nm
  by (simp add: observations_callback_def Let_def
        FiducialMath_solve_t_map_camera_unknown [OF u]
        TransformWithCovariance_invalid_not_valid)

text \<open>
  C3, amended. For every map and every observation batch in which no observation's
  marker id is present in the map, \<open>solve_t_map_camera\<close> of either backend returns an
  invalid transform. For every invalid transform \<open>v\<close>, every batch and every map, the
  factor-graph \<open>update_map\<close> leaves the map unchanged; the geometric \<open>update_map\<close>
  leaves it unchanged on the empty batch. The observations callback of the node, which
  is what follows a localization by a map update, calls \<open>update_map\<close> of neither
  backend after such a localization, and leaves the map unchanged.
\<close>
theorem no_known_markers_short_circuit:
  assumes u: "\<forall>observation\<in>set observations.
                find_marker m (observation_id observation) = None"
    and v: "\<not> is_valid v"
    and nm: "node_map nd = Some m"
    and ms: "msg_observations msg = observations"
  shows "FiducialMath_solve_t_map_camera lib fm observations m =
           Inr (TransformWithCovariance_invalid lib) \<and>
         \<not> is_valid (TransformWithCovariance_invalid lib) \<and>
         SamFiducialMath_update_map lib sam v batch m' = (None, m') \<and>
         CvFiducialMath_update_map lib ci v [] m' = m' \<and>
         observations_callback lib msg nd =
           (None, nd\<lparr>callbacks_processed := callbacks_processed nd + 1\<rparr>,
            if length observations < 2 then [] else [Call_solve_t_map_camera observations])"
proof -
  have a: "FiducialMath_solve_t_map_camera lib fm observations m =
           Inr (TransformWithCovariance_invalid lib)"
    using FiducialMath_solve_t_map_camera_unknown [OF u] .
  have b: "SamFiducialMath_update_map lib sam v batch m' = (None, m')"
    using v by (simp add: SamFiducialMath_update_map_def)
  have c: "observations_callback lib msg nd =
           (None, nd\<lparr>callbacks_processed := callbacks_processed nd + 1\<rparr>,
            if length observations < 2 then [] else [Call_solve_t_map_camera observations])"
    using observations_callback_invalid [OF nm, of msg lib] u ms by simp
  from a b c show ?thesis
    by (simp add: TransformWithCovariance_invalid_not_valid)
qed

text \<open>
  The witness of C3: markers 1 and 2, unknown to \<open>example_map\<close>, are observed.
\<close>
theorem no_known_markers_short_circuit_witness:
  "find_marker example_map (observation_id (example_observation 1)) = None \<and>
   find_marker example_map (observation_id (example_observation 2)) = None \<and>
   is_valid (TransformWithCovariance_invalid example_lib) = False \<and>
   node_map (example_node (Some example_map)) = Some example_map \<and>
   msg_observations (example_msg [example_observation 1, example_observation 2]) =
     [example_observation 1, example_observation 2] \<and>
   FiducialMath_solve_t_map_camera example_lib (FiducialMath_new False 1 example_ci)
     [example_observation 1, example_observation 2] example_map =
     Inr (TransformWithCovariance_invalid example_lib) \<and>
   SamFiducialMath_update_map example_lib example_sam
     (TransformWithCovariance_invalid example_lib)
     [example_observation 1, example_observation 2] example_map = (None, example_map) \<and>
   observations_callback example_lib
     (example_msg [example_observation 1, example_observation 2])
     (example_node (Some example_map)) =
   (None, (example_node (Some example_map))\<lparr>callbacks_processed := 1\<rparr>,
    [Call_solve_t_map_camera [example_observation 1, example_observation 2]])"
proof -
  let ?obs = "[example_observation 1, example_observation 2]"
  have f1: "find_marker example_map (observation_id (example_observation 1)) = None"
    and f2: "find_marker example_map (observation_id (example_observation 2)) = None"
    by (simp_all add: example_defs model_defs)
  have u: "\<forall>observation\<in>set ?obs.
             find_marker example_map (observation_id observation) = None"
    using f1 f2 by simp
  have v: "\<not> is_valid (TransformWithCovariance_invalid example_lib)"
    by (simp add: TransformWithCovariance_invalid_def)
  have nm: "node_map (example_node (Some example_map)) = Some example_map"
    by (simp add: example_node_def)
  have ms: "msg_observations (example_msg ?obs) = ?obs"
    by (simp add: example_msg_def)
  from no_known_markers_short_circuit [OF u v nm ms,
      of example_lib "FiducialMath_new False 1 example_ci" example_sam ?obs example_map]
    f1 f2 v nm ms
  show ?thesis
    by (simp add: example_node_def)
qed

section \<open>C4: map initialization from the first observations\<close>

text \<open>
  C4, evaluated on a node configured for map-initialization style 2. \<open>initialize_map\<close>
  leaves the map pointer empty. On the first batch, with the markers 5 and 3 in this
  order, the callback selects marker 3 and solves \<open>t_camera_marker\<close> for it, and then adds the
  marker through the empty pointer. Run on a node whose map has been allocated,
  \<open>initialize_map_from_observations\<close> seeds exactly marker 3, at the configured
  \<open>t_map_camera\<close> composed with \<open>t_camera_marker\<close>, with \<open>is_fixed = False\<close>: the
  claim says the seeded marker is fixed.
\<close>
theorem mode_2_first_batch:
  "initialize_map example_cxt (Inl ''no map file'') = None \<and>
   observations_callback example_lib (example_msg [example_observation 5, example_observation 3])
     (example_node None) =
   (Some NullPointerDereference, (example_node None)\<lparr>callbacks_processed := 1\<rparr>,
    [Call_solve_t_camera_marker (example_observation 3)]) \<and>
   initialize_map_from_observations example_lib
     (example_node (Some (Map_new covariance 0.1)))
     [example_observation 5, example_observation 3]
     (FiducialMath_new True 1 example_ci) =
   (None,
    example_node
      (Some \<lparr>map_style = covariance, marker_length = 0.1,
             markers = [3 \<mapsto>
               \<lparr>marker_id = 3,
                t_map_marker = \<lparr>is_valid = True, transform = (0, 0, 1), cov = replicate 36 0\<rparr>,
                update_count = 1, is_fixed = False\<rparr>]\<rparr>),
    [Call_solve_t_camera_marker (example_observation 3)])"
  by (simp add: example_defs model_defs initialize_map_def observations_callback_def
        initialize_map_from_observations_def INT_MAX_def FiducialMath_new_def
        FiducialMath_solve_t_camera_marker_def CvCameraInfo_def)

section \<open>C5: the mirror-solution guard\<close>

text \<open>The value of \<open>round_binary\<close> on a number whose binary exponent is known.\<close>
lemma round_binary_eq:
  assumes lo: "2 powi e \<le> \<bar>x\<bar>" and hi: "\<bar>x\<bar> < 2 powi (e + 1)" and em: "emin \<le> e"
  shows "round_binary p emin x =
           2 powi (e - (int p - 1)) * of_int (round_half_even (x / 2 powi (e - (int p - 1))))"
proof -
  have "(0::real) < 2 powi e"
    by (rule zero_less_power_int) simp
  with lo have pos: "0 < \<bar>x\<bar>"
    by linarith
  have a: "(2::real) powr real_of_int e = 2 powi e"
    by (simp add: powr_real_of_int')
  have "(2::real) powr real_of_int (e + 1) = 2 powi (e + 1)"
    by (rule powr_real_of_int') simp_all
  then have b: "(2::real) powr (real_of_int e + 1) = 2 powi (e + 1)"
    by simp
  have c: "2 powr real_of_int e \<le> \<bar>x\<bar>"
    using lo by (simp add: a)
  have d: "\<bar>x\<bar> < 2 powr (real_of_int e + 1)"
    using hi by (simp add: b)
  have "\<lfloor>log 2 \<bar>x\<bar>\<rfloor> = e"
    using floor_log_eq_powr_iff [of "\<bar>x\<bar>" 2 e] pos c d by simp
  then show ?thesis
    using pos em by (simp add: round_binary_def Let_def max_def)
qed

lemma to_double_example_tie:
  "to_double (1 / 2 - - (1 / 2 ^ 60)) = 1 / 2"
proof -
  have "round_binary 53 (- 1022) (1 / 2 - - (1 / 2 ^ 60)) =
          2 powi (- 1 - (int 53 - 1)) *
          of_int (round_half_even ((1 / 2 - - (1 / 2 ^ 60)) / 2 powi (- 1 - (int 53 - 1))))"
    by (rule round_binary_eq) (simp_all add: power_int_def)
  also have "\<dots> = 1 / 2"
    by (simp add: power_int_def round_half_even_def Let_def power_divide)
  finally show ?thesis
    by (simp add: to_double_def)
qed

lemma to_double_0: "to_double (0 - 0) = 0"
  by (simp add: to_double_def round_binary_def)

lemma to_double_minus_1: "to_double (0 - 1) = - 1"
proof -
  have "round_binary 53 (- 1022) (- 1) =
          2 powi (0 - (int 53 - 1)) *
          of_int (round_half_even (- 1 / 2 powi (0 - (int 53 - 1))))"
    by (rule round_binary_eq) simp_all
  also have "\<dots> = - 1"
    by (simp add: power_int_def round_half_even_def Let_def power_divide)
  finally show ?thesis
    by (simp add: to_double_def)
qed

lemma example_not_very_different:
  "\<not> very_different (1 / 2, 0, 0) (- (1 / 2 ^ 60), 0, 0)"
proof -
  have "very_different (1 / 2, 0, 0) (- (1 / 2 ^ 60), 0, 0) \<longleftrightarrow>
          \<bar>to_double (1 / 2 - - (1 / 2 ^ 60))\<bar> > 0.5 \<or>
          \<bar>to_double (0 - 0)\<bar> > 0.5 \<or> \<bar>to_double (0 - 0)\<bar> > 0.5"
    by (simp only: very_different_def prod.case)
  then show ?thesis
    unfolding to_double_example_tie to_double_0 by simp
qed

lemma example_very_different:
  "very_different (0, 0, 0) (1, 0, 0)"
proof -
  have "very_different (0, 0, 0) (1, 0, 0) \<longleftrightarrow>
          \<bar>to_double (0 - 1)\<bar> > 0.5 \<or>
          \<bar>to_double (0 - 0)\<bar> > 0.5 \<or> \<bar>to_double (0 - 0)\<bar> > 0.5"
    by (simp only: very_different_def prod.case)
  then show ?thesis
    unfolding to_double_minus_1 to_double_0 by simp
qed

lemma very_different_iff:
  "very_different (r0, r1, r2) (s0, s1, s2) \<longleftrightarrow>
     \<bar>to_double (r0 - s0)\<bar> > 1 / 2 \<or>
     \<bar>to_double (r1 - s1)\<bar> > 1 / 2 \<or>
     \<bar>to_double (r2 - s2)\<bar> > 1 / 2"
  by (simp add: very_different_def)

text \<open>
  C5, as stated, fails. Two known markers are observed (\<open>N = 8\<close>), the iterative
  solution has the rotation vector \<open>(1/2, 0, 0)\<close> and the RANSAC solution
  \<open>(- 1 / 2 ^ 60, 0, 0)\<close>: the first components differ by more than 0.5, and the
  returned pose is the one derived from the iterative solution (translation
  \<open>(0, 0, - 1)\<close>, where the RANSAC solution gives \<open>(0, 0, - 2)\<close>), because the
  difference computed in \<open>double\<close> is 0.5.
\<close>
theorem mirror_solution_guard_counterexample:
  "length (snd (collect_corners example_lib_mirror (marker_length example_map_7)
     (zip [example_observation 0, example_observation 7]
        (find_t_map_markers example_lib_mirror example_map_7
           [example_observation 0, example_observation 7])) ([], []))) = 8 \<and>
   \<bar>1 / 2 - - (1 / 2 ^ 60)\<bar> > (1 / 2 :: real) \<and>
   CvFiducialMath_solve_t_map_camera example_lib_mirror example_ci
     [example_observation 0, example_observation 7] example_map_7 =
   \<lparr>is_valid = True, transform = (0, 0, - 1), cov = replicate 36 0\<rparr> \<and>
   TransformWithCovariance_of
     (Transform_inverse example_lib_mirror
        (to_tf2_transform example_lib_mirror (1 / 2, 0, 0) (0, 0, 1))) =
   \<lparr>is_valid = True, transform = (0, 0, - 1), cov = replicate 36 0\<rparr> \<and>
   TransformWithCovariance_of
     (Transform_inverse example_lib_mirror
        (to_tf2_transform example_lib_mirror (- (1 / 2 ^ 60), 0, 0) (0, 0, 2))) =
   \<lparr>is_valid = True, transform = (0, 0, - 2), cov = replicate 36 0\<rparr>"
  using example_not_very_different
  by (simp add: example_lib_mirror_def example_defs model_defs)

text \<open>
  C5, amended. In the geometric \<open>solve_t_map_camera\<close>, let \<open>cs3\<close> and \<open>cs2\<close> be the
  map-frame and image corners collected from the observations of known markers
  (\<open>N = length cs2\<close>, four for each such observation), not empty. The returned pose is
  derived from the RANSAC solution on the same correspondences if and only if
  \<open>4 < N < 16\<close> and, for some component, the difference of the two rotation vectors
  computed in \<open>double\<close> (rounded to nearest) is more than 0.5 in absolute value; in all
  other cases it is derived from the iterative solution.
\<close>
theorem mirror_solution_guard:
  assumes c: "collect_corners lib (marker_length m)
                (zip observations (find_t_map_markers lib m observations)) ([], []) = (cs3, cs2)"
    and n: "cs3 \<noteq> []"
    and p: "solvePnP lib cs3 cs2 (camera_matrix ci) (dist_coeffs ci) = ((r0, r1, r2), tvec)"
    and r: "solvePnPRansac lib cs3 cs2 (camera_matrix ci) (dist_coeffs ci) = ((s0, s1, s2), tvecRansac)"
  shows "length cs2 = 4 * length (filter is_valid (find_t_map_markers lib m observations)) \<and>
         CvFiducialMath_solve_t_map_camera lib ci observations m =
           (if 4 < length cs2 \<and> length cs2 < 16 \<and>
               (\<bar>to_double (r0 - s0)\<bar> > 1 / 2 \<or>
                \<bar>to_double (r1 - s1)\<bar> > 1 / 2 \<or>
                \<bar>to_double (r2 - s2)\<bar> > 1 / 2)
            then TransformWithCovariance_of
                   (Transform_inverse lib (to_tf2_transform lib (s0, s1, s2) tvecRansac))
            else TransformWithCovariance_of
                   (Transform_inverse lib (to_tf2_transform lib (r0, r1, r2) tvec)))"
proof -
  have "length (filter (\<lambda>z. is_valid (snd z)) (zip observations (find_t_map_markers lib m observations)))
        = length (filter is_valid (find_t_map_markers lib m observations))"
  proof -
    have l: "length observations = length (find_t_map_markers lib m observations)"
      by (simp add: find_t_map_markers_def)
    have "map snd (filter (\<lambda>z. is_valid (snd z)) (zip observations (find_t_map_markers lib m observations)))
          = filter is_valid (map snd (zip observations (find_t_map_markers lib m observations)))"
      by (simp add: filter_map comp_def)
    also have "map snd (zip observations (find_t_map_markers lib m observations))
          = find_t_map_markers lib m observations"
      using l by simp
    finally show ?thesis by (metis length_map)
  qed
  with collect_corners_length [OF c] have len: "length cs2 = 4 * length (filter is_valid (find_t_map_markers lib m observations))"
    by simp
  have "CvFiducialMath_solve_t_map_camera lib ci observations m =
           (if 4 < length cs2 \<and> length cs2 < 16 \<and> very_different (r0, r1, r2) (s0, s1, s2)
            then TransformWithCovariance_of
                   (Transform_inverse lib (to_tf2_transform lib (s0, s1, s2) tvecRansac))
            else TransformWithCovariance_of
                   (Transform_inverse lib (to_tf2_transform lib (r0, r1, r2) tvec)))"
    using c n p r by (simp add: CvFiducialMath_solve_t_map_camera_def)
  then show ?thesis
    using len by (simp add: very_different_iff)
qed

text \<open>
  The witness of C5: two known markers and an unknown one give \<open>N = 8\<close>, and the two
  rotation vectors of \<open>example_lib\<close> differ by 1 in the first component.
\<close>
theorem mirror_solution_guard_witness:
  "collect_corners example_lib (marker_length example_map_7)
     (zip [example_observation 0, example_observation 7, example_observation 3]
        (find_t_map_markers example_lib example_map_7
           [example_observation 0, example_observation 7, example_observation 3])) ([], []) =
   ([(- 1 / 20, 1 / 20, 0), (1 / 20, 1 / 20, 0), (1 / 20, - 1 / 20, 0), (- 1 / 20, - 1 / 20, 0),
     (- 1 / 20, 1 / 20, 0), (1 / 20, 1 / 20, 0), (1 / 20, - 1 / 20, 0), (- 1 / 20, - 1 / 20, 0)],
    [(to_float 260, to_float 180), (to_float 380, to_float 180),
     (to_float 380, to_float 300), (to_float 260, to_float 300),
     (to_float 260, to_float 180), (to_float 380, to_float 180),
     (to_float 380, to_float 300), (to_float 260, to_float 300)]) \<and>
   \<bar>to_double (0 - 1)\<bar> > 1 / 2 \<and>
   CvFiducialMath_solve_t_map_camera example_lib example_ci
     [example_observation 0, example_observation 7, example_observation 3] example_map_7 =
   TransformWithCovariance_of
     (Transform_inverse example_lib (to_tf2_transform example_lib (1, 0, 0) (0, 0, 2)))"
proof -
  let ?cs3 = "[(- 1 / 20, 1 / 20, 0), (1 / 20, 1 / 20, 0), (1 / 20, - 1 / 20, 0),
     (- 1 / 20, - 1 / 20, 0), (- 1 / 20, 1 / 20, 0), (1 / 20, 1 / 20, 0),
     (1 / 20, - 1 / 20, 0), (- 1 / 20, - 1 / 20, 0 :: real)]"
  let ?cs2 = "[(to_float 260, to_float 180), (to_float 380, to_float 180),
     (to_float 380, to_float 300), (to_float 260, to_float 300),
     (to_float 260, to_float 180), (to_float 380, to_float 180),
     (to_float 380, to_float 300), (to_float 260, to_float 300)] :: Point2f list"
  have c: "collect_corners example_lib (marker_length example_map_7)
     (zip [example_observation 0, example_observation 7, example_observation 3]
        (find_t_map_markers example_lib example_map_7
           [example_observation 0, example_observation 7, example_observation 3])) ([], []) =
     (?cs3, ?cs2)"
    by (simp add: example_defs model_defs)
  have n: "?cs3 \<noteq> []" by simp
  have p: "solvePnP example_lib ?cs3 ?cs2 (camera_matrix example_ci) (dist_coeffs example_ci)
             = ((0, 0, 0), (0, 0, 1))"
    by (simp add: example_lib_def)
  have r: "solvePnPRansac example_lib ?cs3 ?cs2 (camera_matrix example_ci) (dist_coeffs example_ci)
             = ((1, 0, 0), (0, 0, 2))"
    by (simp add: example_lib_def)
  have d: "\<bar>to_double (0 - 1)\<bar> > 1 / 2"
    unfolding to_double_minus_1 by simp
  from mirror_solution_guard [OF c n p r] c d show ?thesis
    by simp
qed

section \<open>C6: preconditions of the factor-graph map update\<close>

text \<open>
  C6. When \<open>t_map_camera\<close> is invalid or there are fewer than 2 observations, the
  factor-graph \<open>update_map\<close> returns the map it was given and raises nothing.
\<close>
theorem sam_update_map_noop:
  assumes "\<not> is_valid t_map_camera \<or> length observations < 2"
  shows "SamFiducialMath_update_map lib sam t_map_camera observations m = (None, m)"
  using assms by (auto simp: SamFiducialMath_update_map_def)

text \<open>The witness of C6: a valid pose with one observation, on \<open>example_map\<close>.\<close>
theorem sam_update_map_noop_witness:
  "length [example_observation 1] < 2 \<and>
   SamFiducialMath_update_map example_lib example_sam (TransformWithCovariance_of (0, 0, 1))
     [example_observation 1] example_map = (None, example_map)"
  using sam_update_map_noop [of "TransformWithCovariance_of (0, 0, 1)" "[example_observation 1]"
      example_lib example_sam example_map]
  by simp

section \<open>C7: fixed markers are immutable\<close>

lemma run_update_maps_fixed:
  "markers m i = Some mk \<Longrightarrow> is_fixed mk \<Longrightarrow>
   markers (snd (run_update_maps lib calls m)) i = Some mk"
proof (induction calls arbitrary: m)
  case Nil
  then show ?case by simp
next
  case (Cons call calls)
  obtain fm t_map_camera observations where call: "call = (fm, t_map_camera, observations)"
    by (cases call)
  obtain raised m' where
    r: "FiducialMath_update_map lib fm t_map_camera observations m = (raised, m')"
    by (cases "FiducialMath_update_map lib fm t_map_camera observations m")
  have k: "markers m' i = Some mk"
    using FiducialMath_update_map_fixed [OF Cons.prems, of lib fm t_map_camera observations] r
    by simp
  show ?case
  proof (cases raised)
    case None
    then show ?thesis
      using call r Cons.IH [OF k Cons.prems(2)] by simp
  next
    case (Some e)
    then show ?thesis
      using call r k by simp
  qed
qed

text \<open>
  C7. For every marker of the map with \<open>is_fixed = true\<close> and every sequence of
  \<open>update_map\<close> calls, each on either backend, the map holds the very same marker
  under its id after the sequence: the same \<open>t_map_marker\<close> (pose and covariance), the
  same \<open>update_count\<close>, still fixed.
\<close>
theorem fixed_markers_immutable:
  assumes "markers m i = Some marker" and "is_fixed marker"
  shows "markers (snd (run_update_maps lib calls m)) i = Some marker"
  using run_update_maps_fixed [OF assms, of lib calls] .

text \<open>
  The witness of C7: the fixed marker 0 of \<open>example_map\<close> is observed, with marker 1,
  in a geometric and then a factor-graph update.
\<close>
theorem fixed_markers_immutable_witness:
  "markers example_map 0 = Some example_marker \<and>
   is_fixed example_marker \<and>
   markers (snd (run_update_maps example_lib
      [(FiducialMath_new False 1 example_ci, TransformWithCovariance_of (0, 0, - 1),
        [example_observation 0, example_observation 1]),
       (FiducialMath_new True 1 example_ci, TransformWithCovariance_of (0, 0, - 1),
        [example_observation 0, example_observation 1])]
      example_map)) 0 = Some example_marker"
proof -
  have a: "markers example_map 0 = Some example_marker"
    by (simp add: example_defs model_defs)
  have b: "is_fixed example_marker"
    by (simp add: example_defs model_defs)
  from fixed_markers_immutable [OF a b] a b show ?thesis
    by blast
qed

section \<open>C8: the map file read back\<close>

lemma yaml_bind_ok [simp]: "yaml_bind (yaml_ok x) f = f x"
  by (simp add: yaml_bind_def yaml_ok_def)


















lemma yaml_error_not_ok [simp]: "yaml_error s \<noteq> yaml_ok x"
  by (simp add: yaml_error_def yaml_ok_def)

lemma yaml_ok_inject [simp]: "yaml_ok x = yaml_ok y \<longleftrightarrow> x = y"
  by (simp add: yaml_ok_def)







section \<open>C9: the two covariance conversions compose to the identity\<close>

text \<open>
  C9. For every 36-entry covariance array \<open>c\<close> and every pose, \<open>to_cov_type\<close> applied
  to \<open>to_cov_sam c\<close> is \<open>c\<close>.
\<close>
theorem to_cov_roundtrip:
  assumes "length c = 36"
  shows "to_cov_type sam_pose (to_cov_sam c) = c"
proof -
  from assms obtain c0 c1 c2 c3 c4 c5 c6 c7 c8 c9 c10 c11 c12 c13 c14 c15 c16 c17
    c18 c19 c20 c21 c22 c23 c24 c25 c26 c27 c28 c29 c30 c31 c32 c33 c34 c35
    where c: "c = [c0, c1, c2, c3, c4, c5, c6, c7, c8, c9, c10, c11, c12, c13, c14, c15, c16,
                   c17, c18, c19, c20, c21, c22, c23, c24, c25, c26, c27, c28, c29, c30, c31,
                   c32, c33, c34, c35]"
    by (rule list_36)
  show ?thesis
    unfolding c to_cov_sam_explicit to_cov_type_explicit by (rule refl)
qed

text \<open>The witness of C9: the array \<open>0, 1, ..., 35\<close>.\<close>
theorem to_cov_roundtrip_witness:
  "length (map real [0..<36]) = 36 \<and>
   to_cov_type (Pose3 (Rot3 1 0 0 0) (0, 0, 0)) (to_cov_sam (map real [0..<36]))
     = map real [0..<36]"
  using to_cov_roundtrip [of "map real [0..<36]" "Pose3 (Rot3 1 0 0 0) (0, 0, 0)"] by simp

section \<open>C10: batches of fewer than 2 observations\<close>

lemma initialize_map_from_observations_calls:
  "call \<in> set (snd (snd (initialize_map_from_observations lib nd observations fm))) \<Longrightarrow>
   \<exists>observation. call = Call_solve_t_camera_marker observation"
  by (auto simp: initialize_map_from_observations_def Let_def split: prod.splits option.splits)

lemma observations_callback_calls:
  assumes "call \<in> set (snd (snd (observations_callback lib msg nd)))"
    and "call = Call_solve_t_map_camera observations \<or> call = Call_update_map observations"
  shows "observations = msg_observations msg \<and> 2 \<le> length observations"
proof -
  let ?nd = "nd\<lparr>callbacks_processed := callbacks_processed nd + 1\<rparr>"
  let ?fm = "FiducialMath_new (cxt_sam_not_cv (cxt ?nd))
               (cxt_corner_measurement_sigma (cxt ?nd)) (CvCameraInfo (msg_camera_info msg))"
  let ?init = "if node_map ?nd = None \<and> length (msg_observations msg) > 0
               then initialize_map_from_observations lib ?nd (msg_observations msg) ?fm
               else (None, ?nd, [])"
  obtain raised nd1 calls where i: "?init = (raised, nd1, calls)"
    by (cases ?init)
  have c: "\<And>c. c \<in> set calls \<Longrightarrow> \<exists>observation. c = Call_solve_t_camera_marker observation"
    using i initialize_map_from_observations_calls [of _ lib ?nd "msg_observations msg" ?fm]
    by (auto split: if_splits)
  have n: "call \<notin> set calls"
    using c assms(2) by auto
  show ?thesis
    using assms(1) n assms(2) i
    by (auto simp: observations_callback_def Let_def
          split: if_splits option.splits sum.splits prod.splits)
qed

text \<open>
  C10. When a batch of fewer than 2 observations reaches the observations callback and
  the map is initialized, the callback makes no call to a solver and leaves the map as
  it is (it only counts the callback). For every batch and every state of the node, a
  call to \<open>solve_t_map_camera\<close> or to \<open>update_map\<close> is made on the batch of the
  message, and only when it has at least 2 observations: no map update on a single
  observation is reachable through the node.
\<close>
theorem callback_fewer_than_2:
  assumes "node_map nd = Some m" and "length (msg_observations msg) < 2"
  shows "observations_callback lib msg nd =
           (None, nd\<lparr>callbacks_processed := callbacks_processed nd + 1\<rparr>, []) \<and>
         (\<forall>msg' nd' observations.
            Call_solve_t_map_camera observations
              \<in> set (snd (snd (observations_callback lib msg' nd'))) \<or>
            Call_update_map observations
              \<in> set (snd (snd (observations_callback lib msg' nd'))) \<longrightarrow>
            observations = msg_observations msg' \<and> 2 \<le> length observations)"
proof -
  have a: "observations_callback lib msg nd =
           (None, nd\<lparr>callbacks_processed := callbacks_processed nd + 1\<rparr>, [])"
    using assms by (simp add: observations_callback_def Let_def)
  have b: "observations = msg_observations msg' \<and> 2 \<le> length observations"
    if "Call_solve_t_map_camera observations
              \<in> set (snd (snd (observations_callback lib msg' nd'))) \<or>
            Call_update_map observations
              \<in> set (snd (snd (observations_callback lib msg' nd')))"
    for msg' nd' observations
    using that observations_callback_calls [of _ lib msg' nd' observations] by blast
  from a b show ?thesis by blast
qed

text \<open>The witness of C10: one observation, on a node that holds \<open>example_map\<close>.\<close>
theorem callback_fewer_than_2_witness:
  "node_map (example_node (Some example_map)) = Some example_map \<and>
   length (msg_observations (example_msg [example_observation 1])) < 2 \<and>
   observations_callback example_lib (example_msg [example_observation 1])
     (example_node (Some example_map)) =
   (None, (example_node (Some example_map))\<lparr>callbacks_processed := 1\<rparr>, [])"
proof -
  have a: "node_map (example_node (Some example_map)) = Some example_map"
    by (simp add: example_node_def)
  have b: "length (msg_observations (example_msg [example_observation 1])) < 2"
    by (simp add: example_msg_def)
  from callback_fewer_than_2 [OF a b, of example_lib] a b show ?thesis
    by (simp add: example_node_def)
qed

end
